theory Spec2Isabelle
  imports Main
begin

section \<open>Syntax trees, expression trees and values\<close>

text \<open>
  The reader's syntax tree (syntax.hpp), as parser.cpp and Quote::eval use it: one
  constructor per class that the sources \<open>dynamic_cast\<close> to.
\<close>

datatype Syntax =
    Number int
  | RationalSyntax int int
  | SymbolSyntax string
  | StringSyntax string
  | TrueSyntax
  | FalseSyntax
  | List "Syntax list"

text \<open>
  The tags of the two process-wide tables. Those from \<open>E_VOID\<close> to \<open>E_COND\<close> occur in
  parser.cpp and evaluation.cpp; the five ordering tags are the ones that occur in neither
  file.
\<close>

datatype ExprType =
    E_VOID | E_EXIT | E_BOOLQ | E_INTQ | E_NULLQ | E_PAIRQ | E_PROCQ | E_SYMBOLQ
  | E_STRINGQ | E_LISTQ | E_DISPLAY | E_PLUS | E_MINUS | E_MUL | E_DIV | E_MODULO
  | E_EXPT | E_EQQ | E_LIST | E_CONS | E_CAR | E_CDR | E_SETCAR | E_SETCDR | E_NOT
  | E_BEGIN | E_QUOTE | E_IF | E_LAMBDA | E_DEFINE | E_LET | E_LETREC | E_SET | E_COND
  | E_LT | E_LE | E_EQ | E_GE | E_GT

text \<open>
  The classes derived from Unary, Binary and Variadic: each overrides \<open>evalRator\<close> only,
  so a node is the base class's \<open>eval\<close> with a tag that selects the override. A class
  whose name is a constant of HOL carries a suffix here and below: \<open>Plus_op\<close>, \<open>Cons_op\<close>,
  \<open>Not_op\<close>, \<open>True_expr\<close>, \<open>False_expr\<close>, \<open>If_expr\<close>, \<open>Let_expr\<close>, \<open>Set_expr\<close>,
  \<open>String_val\<close>, \<open>Pair_val\<close>.
\<close>

datatype unary_op =
    IsBoolean | IsFixnum | IsNull | IsPair | IsProcedure | IsSymbol | IsString | IsList
  | Car | Cdr | Not_op | Display

datatype binary_op =
    Plus_op | Minus | Mult | Div | Modulo | Expt
  | Less | LessEq | Equal | GreaterEq | Greater
  | Cons_op | SetCar | SetCdr | IsEq

datatype variadic_op =
    PlusVar | MinusVar | MultVar | DivVar
  | LessVar | LessEqVar | EqualVar | GreaterEqVar | GreaterVar
  | ListFunc

datatype Expr =
    Fixnum int
  | RationalNum int int
  | StringExpr string
  | True_expr
  | False_expr
  | MakeVoid
  | Exit
  | Unary unary_op Expr
  | Binary binary_op Expr Expr
  | Variadic variadic_op "Expr list"
  | Var string
  | Begin "Expr list"
  | Quote Syntax
  | AndVar "Expr list"
  | OrVar "Expr list"
  | If_expr Expr Expr Expr
  | Cond "Expr list list"
  | Lambda "string list" Expr
  | Apply Expr "Expr list"
  | Define string Expr
  | Let_expr "(string \<times> Expr) list" Expr
  | Letrec "(string \<times> Expr) list" Expr
  | Set_expr string Expr

text \<open>
  A \<open>Value\<close> is a shared pointer to a heap object: \<open>Some a\<close> is the object at address
  \<open>a\<close>, \<open>None\<close> is the null pointer that \<open>Value(nullptr)\<close> builds. An \<open>Assoc\<close> is a chain
  of bindings, innermost first; a binding is a name and the address of the mutable cell
  that holds its value, so two environments that share a tail share its cells.
\<close>

type_synonym Value = "nat option"

type_synonym Assoc = "(string \<times> nat) list"

datatype ValueBase =
    Integer int
  | Rational int int
  | Boolean bool
  | String_val string
  | Symbol string
  | Null
  | Pair_val Value Value
  | Procedure "string list" Expr Assoc
  | Void
  | Terminate

datatype ValueType =
    V_INT | V_RATIONAL | V_BOOL | V_STRING | V_SYM | V_NULL | V_PAIR | V_PROC | V_VOID
  | V_TERMINATE

fun v_type :: "ValueBase \<Rightarrow> ValueType" where
  "v_type (Integer n) = V_INT"
| "v_type (Rational n d) = V_RATIONAL"
| "v_type (Boolean b) = V_BOOL"
| "v_type (String_val s) = V_STRING"
| "v_type (Symbol s) = V_SYM"
| "v_type Null = V_NULL"
| "v_type (Pair_val a d) = V_PAIR"
| "v_type (Procedure ps b env) = V_PROC"
| "v_type Void = V_VOID"
| "v_type Terminate = V_TERMINATE"

text \<open>
  What \<open>display\<close> writes: the characters of a string, or the rendering of another value
  by its \<open>show\<close> method, which is kept as the value shown.
\<close>

datatype out_item = Text string | Shown Value

text \<open>
  The machine state: the heap of value objects, the cells of the environment bindings,
  and what was written to standard output.
\<close>

record State =
  heap :: "ValueBase list"
  cells :: "Value list"
  stdout :: "out_item list"

definition init_state :: State where
  "init_state = \<lparr>heap = [], cells = [], stdout = []\<rparr>"

text \<open>
  How a computation ends other than by a value: a thrown RuntimeError with its message,
  a null pointer dereferenced, an address read that holds no object (which shared pointers
  rule out, and the model's state type does not), the end of a value-returning function
  reached without a \<open>return\<close>, the processor's trap on an integer division whose
  quotient does not fit, or the recursion bound of the model exhausted.
\<close>

datatype error =
    RuntimeError string
  | NullDereference
  | DanglingPointer
  | MissingReturn
  | ArithmeticTrap
  | OutOfFuel

subsection \<open>Fixed-width integers\<close>

text \<open>
  \<open>int\<close> is 32 bits wide. Sums, differences and products are taken modulo \<open>2 ^ 32\<close> and
  read back as signed, which is what the machine does where C++ leaves signed overflow
  undefined. Literals and fields are integers as given; no property below depends on
  their range.
\<close>

definition INT_MAX :: int where
  "INT_MAX = 2147483647"

definition INT_MIN :: int where
  "INT_MIN = - 2147483648"

definition wrap :: "int \<Rightarrow> int" where
  "wrap x = (x + 2147483648) mod 4294967296 - 2147483648"

definition add_int :: "int \<Rightarrow> int \<Rightarrow> int" where
  "add_int a b = wrap (a + b)"

definition sub_int :: "int \<Rightarrow> int \<Rightarrow> int" where
  "sub_int a b = wrap (a - b)"

definition mul_int :: "int \<Rightarrow> int \<Rightarrow> int" where
  "mul_int a b = wrap (a * b)"

text \<open>
  The remainder of C++, for a divisor other than zero and a quotient that fits: it has
  the sign of the dividend. Modulo::evalRator guards the one use.
\<close>

definition rem_int :: "int \<Rightarrow> int \<Rightarrow> int" where
  "rem_int a b = sgn a * (\<bar>a\<bar> mod \<bar>b\<bar>)"

subsection \<open>Value constructors\<close>

definition alloc :: "ValueBase \<Rightarrow> State \<Rightarrow> Value \<times> State" where
  "alloc obj s = (Some (length (heap s)), s\<lparr>heap := heap s @ [obj]\<rparr>)"

text \<open>
  Modelled from the spec: the constructor functions of value.cpp, which is not among the
  sources. Each builds a fresh object of its kind (section 3, "values are created by
  evaluation and by quotation").
\<close>

definition IntegerV :: "int \<Rightarrow> State \<Rightarrow> Value \<times> State" where
  "IntegerV n = alloc (Integer n)"

text \<open>
  Modelled from the spec: \<open>RationalV\<close> of value.cpp, the call through which every
  arithmetic primitive returns a rational. Section 4.1: "sign convention and reduction to
  lowest terms are required before returning from every arithmetic primitive, by dividing
  both components by their greatest common divisor and normalizing sign onto the
  numerator". The primitives hand it the numerator and denominator "as given by
  arithmetic" and do nothing after it, so the reduction is the work of this call. Section
  3: "a Rational is never constructed with denominator zero"; for that denominator the
  pair is kept as it is.
\<close>

definition RationalV :: "int \<Rightarrow> int \<Rightarrow> State \<Rightarrow> Value \<times> State" where
  "RationalV n d =
     alloc
       (if d = 0 then Rational n d
        else
          (let g = gcd n d; num = n div g; den = d div g in
           if den < 0 then Rational (- num) (- den) else Rational num den))"

text \<open>Modelled from the spec: the remaining constructors of value.cpp.\<close>

definition BooleanV :: "bool \<Rightarrow> State \<Rightarrow> Value \<times> State" where
  "BooleanV b = alloc (Boolean b)"

definition StringV :: "string \<Rightarrow> State \<Rightarrow> Value \<times> State" where
  "StringV str = alloc (String_val str)"

definition SymbolV :: "string \<Rightarrow> State \<Rightarrow> Value \<times> State" where
  "SymbolV str = alloc (Symbol str)"

definition NullV :: "State \<Rightarrow> Value \<times> State" where
  "NullV = alloc Null"

definition VoidV :: "State \<Rightarrow> Value \<times> State" where
  "VoidV = alloc Void"

definition TerminateV :: "State \<Rightarrow> Value \<times> State" where
  "TerminateV = alloc Terminate"

definition PairV :: "Value \<Rightarrow> Value \<Rightarrow> State \<Rightarrow> Value \<times> State" where
  "PairV a d = alloc (Pair_val a d)"

definition ProcedureV :: "string list \<Rightarrow> Expr \<Rightarrow> Assoc \<Rightarrow> State \<Rightarrow> Value \<times> State" where
  "ProcedureV ps b env = alloc (Procedure ps b env)"

subsection \<open>Environments\<close>

text \<open>Modelled from the spec: \<open>empty\<close> of value.cpp, "a frame-less environment".\<close>

definition empty :: Assoc where
  "empty = []"

text \<open>
  Modelled from the spec: \<open>extend\<close> of value.cpp, "returns a new environment consisting of
  a fresh single-binding frame followed by env; it does not mutate env".
\<close>

definition extend :: "string \<Rightarrow> Value \<Rightarrow> Assoc \<Rightarrow> State \<Rightarrow> Assoc \<times> State" where
  "extend x v env s = ((x, length (cells s)) # env, s\<lparr>cells := cells s @ [v]\<rparr>)"

text \<open>
  Modelled from the spec: \<open>find\<close> of value.cpp, "searches frames innermost-to-outermost and
  returns the bound value, or a not-found indicator". The callers in the sources test the
  result against the null pointer, which is therefore the indicator.
\<close>

definition find :: "string \<Rightarrow> Assoc \<Rightarrow> State \<Rightarrow> Value" where
  "find x env s =
     (case map_of env x of
        None \<Rightarrow> None
      | Some c \<Rightarrow> if c < length (cells s) then cells s ! c else None)"

text \<open>
  Modelled from the spec: \<open>modify\<close> of value.cpp, "searches the same order and overwrites
  the existing cell in place"; for a name bound nowhere, section 4.4 on \<open>set!\<close>: "signals
  RuntimeError if unbound".
\<close>

definition modify :: "string \<Rightarrow> Value \<Rightarrow> Assoc \<Rightarrow> State \<Rightarrow> error + State" where
  "modify x v env s =
     (case map_of env x of
        None \<Rightarrow> Inl (RuntimeError ''modify of an unbound variable'')
      | Some c \<Rightarrow> Inr (s\<lparr>cells := (cells s)[c := v]\<rparr>))"

section \<open>Primitive operations (evaluation.cpp)\<close>

type_synonym outcome = "(error + Value) \<times> State"

definition throw :: "string \<Rightarrow> State \<Rightarrow> outcome" where
  "throw msg s = (Inl (RuntimeError msg), s)"

definition ret :: "Value \<times> State \<Rightarrow> outcome" where
  "ret r = (Inr (fst r), snd r)"

text \<open>\<open>v->...\<close>: reading through a pointer.\<close>

definition deref :: "Value \<Rightarrow> State \<Rightarrow> error + ValueBase" where
  "deref v s =
     (case v of
        None \<Rightarrow> Inl NullDereference
      | Some a \<Rightarrow> if a < length (heap s) then Inr (heap s ! a) else Inl DanglingPointer)"

text \<open>
  The arithmetic and ordering primitives branch on whether each operand is an Integer or
  a Rational; \<open>as_num\<close> is that test together with the fields read after it.
\<close>

datatype num = NInt int | NRat int int

fun as_num :: "ValueBase \<Rightarrow> num option" where
  "as_num (Integer n) = Some (NInt n)"
| "as_num (Rational n d) = Some (NRat n d)"
| "as_num _ = None"

text \<open>
  The operands of a test \<open>a->v_type == T1 && b->v_type == T2\<close> chain over the numeric
  kinds: \<open>a\<close> is read first, and \<open>b\<close> is read only when \<open>a\<close> is numeric.
\<close>

definition numeric_operands :: "Value \<Rightarrow> Value \<Rightarrow> State \<Rightarrow> error + (num \<times> num) option" where
  "numeric_operands a b s =
     (case deref a s of
        Inl e \<Rightarrow> Inl e
      | Inr x \<Rightarrow>
          (case as_num x of
             None \<Rightarrow> Inr None
           | Some p \<Rightarrow>
               (case deref b s of
                  Inl e \<Rightarrow> Inl e
                | Inr y \<Rightarrow>
                    (case as_num y of
                       None \<Rightarrow> Inr None
                     | Some q \<Rightarrow> Inr (Some (p, q))))))"

definition Plus_evalRator :: "Value \<Rightarrow> Value \<Rightarrow> State \<Rightarrow> outcome" where
  "Plus_evalRator a b s =
     (case numeric_operands a b s of
        Inl e \<Rightarrow> (Inl e, s)
      | Inr None \<Rightarrow> throw ''Wrong typename'' s
      | Inr (Some (NInt n1, NInt n2)) \<Rightarrow> ret (IntegerV (add_int n1 n2) s)
      | Inr (Some (NRat rn rd, NInt n2)) \<Rightarrow> ret (RationalV (add_int rn (mul_int n2 rd)) rd s)
      | Inr (Some (NInt n1, NRat rn rd)) \<Rightarrow> ret (RationalV (add_int (mul_int n1 rd) rn) rd s)
      | Inr (Some (NRat n1 d1, NRat n2 d2)) \<Rightarrow>
          ret (RationalV (add_int (mul_int n1 d2) (mul_int n2 d1)) (mul_int d1 d2) s))"

definition Minus_evalRator :: "Value \<Rightarrow> Value \<Rightarrow> State \<Rightarrow> outcome" where
  "Minus_evalRator a b s =
     (case numeric_operands a b s of
        Inl e \<Rightarrow> (Inl e, s)
      | Inr None \<Rightarrow> throw ''Wrong typename'' s
      | Inr (Some (NInt n1, NInt n2)) \<Rightarrow> ret (IntegerV (sub_int n1 n2) s)
      | Inr (Some (NRat rn rd, NInt n2)) \<Rightarrow> ret (RationalV (sub_int rn (mul_int n2 rd)) rd s)
      | Inr (Some (NInt n1, NRat rn rd)) \<Rightarrow> ret (RationalV (sub_int (mul_int n1 rd) rn) rd s)
      | Inr (Some (NRat n1 d1, NRat n2 d2)) \<Rightarrow>
          ret (RationalV (sub_int (mul_int n1 d2) (mul_int n2 d1)) (mul_int d1 d2) s))"

definition Mult_evalRator :: "Value \<Rightarrow> Value \<Rightarrow> State \<Rightarrow> outcome" where
  "Mult_evalRator a b s =
     (case numeric_operands a b s of
        Inl e \<Rightarrow> (Inl e, s)
      | Inr None \<Rightarrow> throw ''Wrong typename'' s
      | Inr (Some (NInt n1, NInt n2)) \<Rightarrow> ret (IntegerV (mul_int n1 n2) s)
      | Inr (Some (NRat rn rd, NInt n2)) \<Rightarrow> ret (RationalV (mul_int rn n2) rd s)
      | Inr (Some (NInt n1, NRat rn rd)) \<Rightarrow> ret (RationalV (mul_int n1 rn) rd s)
      | Inr (Some (NRat n1 d1, NRat n2 d2)) \<Rightarrow>
          ret (RationalV (mul_int n1 n2) (mul_int d1 d2) s))"

text \<open>
  Div::evalRator reads the divisor first, for its two zero tests, and only then the
  chain over both operands.
\<close>

definition Div_evalRator :: "Value \<Rightarrow> Value \<Rightarrow> State \<Rightarrow> outcome" where
  "Div_evalRator a b s =
     (case deref b s of
        Inl e \<Rightarrow> (Inl e, s)
      | Inr y \<Rightarrow>
          if as_num y = Some (NInt 0) then throw ''Division by zero'' s
          else if (case as_num y of Some (NRat n d) \<Rightarrow> n = 0 | _ \<Rightarrow> False)
            then throw ''Division by zero'' s
          else
            (case numeric_operands a b s of
               Inl e \<Rightarrow> (Inl e, s)
             | Inr None \<Rightarrow> throw ''Wrong typename'' s
             | Inr (Some (NInt n1, NInt n2)) \<Rightarrow> ret (RationalV n1 n2 s)
             | Inr (Some (NRat rn rd, NInt n2)) \<Rightarrow> ret (RationalV rn (mul_int rd n2) s)
             | Inr (Some (NInt n1, NRat rn rd)) \<Rightarrow> ret (RationalV (mul_int n1 rd) rn s)
             | Inr (Some (NRat n1 d1, NRat n2 d2)) \<Rightarrow>
                 ret (RationalV (mul_int n1 d2) (mul_int d1 n2) s)))"

text \<open>
  Modulo::evalRator throws for the divisor zero only. \<open>INT_MIN % -1\<close> has no defined
  result: the quotient does not fit an \<open>int\<close> and the division instruction traps.
\<close>

definition Modulo_evalRator :: "Value \<Rightarrow> Value \<Rightarrow> State \<Rightarrow> outcome" where
  "Modulo_evalRator rand1 rand2 s =
     (case deref rand1 s of
        Inl e \<Rightarrow> (Inl e, s)
      | Inr (Integer dividend) \<Rightarrow>
          (case deref rand2 s of
             Inl e \<Rightarrow> (Inl e, s)
           | Inr (Integer divisor) \<Rightarrow>
               if divisor = 0 then throw ''Division by zero'' s
               else if dividend = INT_MIN \<and> divisor = - 1 then (Inl ArithmeticTrap, s)
               else ret (IntegerV (rem_int dividend divisor) s)
           | Inr _ \<Rightarrow> throw ''modulo is only defined for integers'' s)
      | Inr _ \<Rightarrow> throw ''modulo is only defined for integers'' s)"

text \<open>
  The loop of Expt::evalRator, on \<open>long long\<close> values that stay below \<open>2 ^ 63\<close>: \<open>b\<close> is
  squared only while it fits an \<open>int\<close>, and \<open>result\<close> is checked after each product.
\<close>

function Expt_loop :: "int \<Rightarrow> int \<Rightarrow> int \<Rightarrow> string + int" where
  "Expt_loop result b exp =
     (if exp > 0 then
        (let result1 = (if exp mod 2 = 1 then result * b else result) in
         if exp mod 2 = 1 \<and> (result1 > INT_MAX \<or> result1 < INT_MIN)
           then Inl ''Integer overflow in expt''
         else
           (let b1 = b * b in
            if (b1 > INT_MAX \<or> b1 < INT_MIN) \<and> exp > 1
              then Inl ''Integer overflow in expt''
            else Expt_loop result1 b1 (exp div 2)))
      else Inr result)"
  by pat_completeness auto
termination
  by (relation "measure (\<lambda>(result, b, exp). nat exp)") auto

declare Expt_loop.simps [simp del]

definition Expt_evalRator :: "Value \<Rightarrow> Value \<Rightarrow> State \<Rightarrow> outcome" where
  "Expt_evalRator rand1 rand2 s =
     (case deref rand1 s of
        Inl e \<Rightarrow> (Inl e, s)
      | Inr (Integer base) \<Rightarrow>
          (case deref rand2 s of
             Inl e \<Rightarrow> (Inl e, s)
           | Inr (Integer exponent) \<Rightarrow>
               if exponent < 0 then throw ''Negative exponent not supported for integers'' s
               else if base = 0 \<and> exponent = 0 then throw ''0^0 is undefined'' s
               else
                 (case Expt_loop 1 base exponent of
                    Inl msg \<Rightarrow> throw msg s
                  | Inr result \<Rightarrow> ret (IntegerV result s))
           | Inr _ \<Rightarrow> throw ''Wrong typename'' s)
      | Inr _ \<Rightarrow> throw ''Wrong typename'' s)"

subsection \<open>Ordering\<close>

definition three_way :: "int \<Rightarrow> int \<Rightarrow> int" where
  "three_way left right = (if left < right then - 1 else if left > right then 1 else 0)"

definition compareNumericValues :: "Value \<Rightarrow> Value \<Rightarrow> State \<Rightarrow> error + int" where
  "compareNumericValues v1 v2 s =
     (case numeric_operands v1 v2 s of
        Inl e \<Rightarrow> Inl e
      | Inr None \<Rightarrow> Inl (RuntimeError ''Wrong typename in numeric comparison'')
      | Inr (Some (NInt n1, NInt n2)) \<Rightarrow> Inr (three_way n1 n2)
      | Inr (Some (NRat num1 den1, NInt n2)) \<Rightarrow> Inr (three_way num1 (mul_int n2 den1))
      | Inr (Some (NInt n1, NRat num2 den2)) \<Rightarrow> Inr (three_way (mul_int n1 den2) num2)
      | Inr (Some (NRat num1 den1, NRat num2 den2)) \<Rightarrow>
          Inr (three_way (mul_int num1 den2) (mul_int num2 den1)))"

definition Less_evalRator :: "Value \<Rightarrow> Value \<Rightarrow> State \<Rightarrow> outcome" where
  "Less_evalRator a b s =
     (case compareNumericValues a b s of
        Inl e \<Rightarrow> (Inl e, s)
      | Inr c \<Rightarrow> ret (BooleanV (c < 0) s))"

definition LessEq_evalRator :: "Value \<Rightarrow> Value \<Rightarrow> State \<Rightarrow> outcome" where
  "LessEq_evalRator a b s =
     (case compareNumericValues a b s of
        Inl e \<Rightarrow> (Inl e, s)
      | Inr c \<Rightarrow> ret (BooleanV (c \<le> 0) s))"

definition Equal_evalRator :: "Value \<Rightarrow> Value \<Rightarrow> State \<Rightarrow> outcome" where
  "Equal_evalRator a b s =
     (case compareNumericValues a b s of
        Inl e \<Rightarrow> (Inl e, s)
      | Inr c \<Rightarrow> ret (BooleanV (c = 0) s))"

definition GreaterEq_evalRator :: "Value \<Rightarrow> Value \<Rightarrow> State \<Rightarrow> outcome" where
  "GreaterEq_evalRator a b s =
     (case compareNumericValues a b s of
        Inl e \<Rightarrow> (Inl e, s)
      | Inr c \<Rightarrow> ret (BooleanV (c \<ge> 0) s))"

definition Greater_evalRator :: "Value \<Rightarrow> Value \<Rightarrow> State \<Rightarrow> outcome" where
  "Greater_evalRator a b s =
     (case compareNumericValues a b s of
        Inl e \<Rightarrow> (Inl e, s)
      | Inr c \<Rightarrow> ret (BooleanV (c > 0) s))"

subsection \<open>Pairs and lists\<close>

definition Cons_evalRator :: "Value \<Rightarrow> Value \<Rightarrow> State \<Rightarrow> outcome" where
  "Cons_evalRator a d s = ret (PairV a d s)"

text \<open>ListFunc::evalRator conses from the last argument back to the first.\<close>

fun ListFunc_loop :: "Value list \<Rightarrow> Value \<Rightarrow> State \<Rightarrow> Value \<times> State" where
  "ListFunc_loop [] lst s = (lst, s)"
| "ListFunc_loop (v # vs) lst s = (case PairV v lst s of (lst1, s1) \<Rightarrow> ListFunc_loop vs lst1 s1)"

definition ListFunc_evalRator :: "Value list \<Rightarrow> State \<Rightarrow> outcome" where
  "ListFunc_evalRator args s =
     (case NullV s of (lst, s1) \<Rightarrow> ret (ListFunc_loop (rev args) lst s1))"

text \<open>
  The walk of IsList::evalRator along the \<open>cdr\<close> fields. On a cyclic chain the source
  never leaves its loop; the model gives up after \<open>k\<close> steps.
\<close>

fun IsList_loop :: "nat \<Rightarrow> Value \<Rightarrow> State \<Rightarrow> outcome" where
  "IsList_loop k cur s =
     (case deref cur s of
        Inl e \<Rightarrow> (Inl e, s)
      | Inr (Pair_val a d) \<Rightarrow>
          (case k of 0 \<Rightarrow> (Inl OutOfFuel, s) | Suc k1 \<Rightarrow> IsList_loop k1 d s)
      | Inr x \<Rightarrow> ret (BooleanV (v_type x = V_NULL) s))"

declare IsList_loop.simps [simp del]

definition Car_evalRator :: "Value \<Rightarrow> State \<Rightarrow> outcome" where
  "Car_evalRator v s =
     (if v = None then throw ''car on invalid value'' s
      else
        (case deref v s of
           Inl e \<Rightarrow> (Inl e, s)
         | Inr (Pair_val a d) \<Rightarrow> (Inr a, s)
         | Inr _ \<Rightarrow> throw ''car on non-pair'' s))"

definition Cdr_evalRator :: "Value \<Rightarrow> State \<Rightarrow> outcome" where
  "Cdr_evalRator v s =
     (if v = None then throw ''cdr on invalid value'' s
      else
        (case deref v s of
           Inl e \<Rightarrow> (Inl e, s)
         | Inr (Pair_val a d) \<Rightarrow> (Inr d, s)
         | Inr _ \<Rightarrow> throw ''cdr on non-pair'' s))"

definition SetCar_evalRator :: "Value \<Rightarrow> Value \<Rightarrow> State \<Rightarrow> outcome" where
  "SetCar_evalRator pairv newcar s =
     (case deref pairv s of
        Inl e \<Rightarrow> (Inl e, s)
      | Inr (Pair_val a d) \<Rightarrow>
          ret (VoidV (s\<lparr>heap := (heap s)[the pairv := Pair_val newcar d]\<rparr>))
      | Inr _ \<Rightarrow> throw ''set-car! on non-pair'' s)"

definition SetCdr_evalRator :: "Value \<Rightarrow> Value \<Rightarrow> State \<Rightarrow> outcome" where
  "SetCdr_evalRator pairv newcdr s =
     (case deref pairv s of
        Inl e \<Rightarrow> (Inl e, s)
      | Inr (Pair_val a d) \<Rightarrow>
          ret (VoidV (s\<lparr>heap := (heap s)[the pairv := Pair_val a newcdr]\<rparr>))
      | Inr _ \<Rightarrow> throw ''set-cdr! on non-pair'' s)"

subsection \<open>Identity and type predicates\<close>

text \<open>
  IsEq::evalRator. Each test of its chain reads \<open>rand1\<close> first and \<open>rand2\<close> only when the
  kind of \<open>rand1\<close> is the one tested, so \<open>rand2\<close> is read exactly when \<open>rand1\<close> is an
  Integer, a Boolean, a Symbol, Null or Void; the last branch compares the two pointers.
\<close>

definition IsEq_evalRator :: "Value \<Rightarrow> Value \<Rightarrow> State \<Rightarrow> outcome" where
  "IsEq_evalRator rand1 rand2 s =
     (case deref rand1 s of
        Inl e \<Rightarrow> (Inl e, s)
      | Inr x \<Rightarrow>
          if v_type x \<in> {V_INT, V_BOOL, V_SYM, V_NULL, V_VOID} then
            (case deref rand2 s of
               Inl e \<Rightarrow> (Inl e, s)
             | Inr y \<Rightarrow>
                 (case (x, y) of
                    (Integer n1, Integer n2) \<Rightarrow> ret (BooleanV (n1 = n2) s)
                  | (Boolean b1, Boolean b2) \<Rightarrow> ret (BooleanV (b1 = b2) s)
                  | (Symbol s1, Symbol s2) \<Rightarrow> ret (BooleanV (s1 = s2) s)
                  | (Null, Null) \<Rightarrow> ret (BooleanV True s)
                  | (Void, Void) \<Rightarrow> ret (BooleanV True s)
                  | _ \<Rightarrow> ret (BooleanV (rand1 = rand2) s)))
          else ret (BooleanV (rand1 = rand2) s))"

definition type_predicate :: "ValueType \<Rightarrow> Value \<Rightarrow> State \<Rightarrow> outcome" where
  "type_predicate t rand s =
     (case deref rand s of
        Inl e \<Rightarrow> (Inl e, s)
      | Inr x \<Rightarrow> ret (BooleanV (v_type x = t) s))"

definition Not_evalRator :: "Value \<Rightarrow> State \<Rightarrow> outcome" where
  "Not_evalRator v s =
     (case deref v s of
        Inl e \<Rightarrow> (Inl e, s)
      | Inr x \<Rightarrow> ret (BooleanV (x = Boolean False) s))"

definition Display_evalRator :: "Value \<Rightarrow> State \<Rightarrow> outcome" where
  "Display_evalRator rand s =
     (case deref rand s of
        Inl e \<Rightarrow> (Inl e, s)
      | Inr (String_val str) \<Rightarrow> ret (VoidV (s\<lparr>stdout := stdout s @ [Text str]\<rparr>))
      | Inr _ \<Rightarrow> ret (VoidV (s\<lparr>stdout := stdout s @ [Shown rand]\<rparr>)))"

subsection \<open>Dispatch of \<open>evalRator\<close>\<close>

definition Unary_evalRator :: "nat \<Rightarrow> unary_op \<Rightarrow> Value \<Rightarrow> State \<Rightarrow> outcome" where
  "Unary_evalRator k op v s =
     (case op of
        IsBoolean \<Rightarrow> type_predicate V_BOOL v s
      | IsFixnum \<Rightarrow> type_predicate V_INT v s
      | IsNull \<Rightarrow> type_predicate V_NULL v s
      | IsPair \<Rightarrow> type_predicate V_PAIR v s
      | IsProcedure \<Rightarrow> type_predicate V_PROC v s
      | IsSymbol \<Rightarrow> type_predicate V_SYM v s
      | IsString \<Rightarrow> type_predicate V_STRING v s
      | IsList \<Rightarrow> IsList_loop k v s
      | Car \<Rightarrow> Car_evalRator v s
      | Cdr \<Rightarrow> Cdr_evalRator v s
      | Not_op \<Rightarrow> Not_evalRator v s
      | Display \<Rightarrow> Display_evalRator v s)"

definition Binary_evalRator :: "binary_op \<Rightarrow> Value \<Rightarrow> Value \<Rightarrow> State \<Rightarrow> outcome" where
  "Binary_evalRator op a b s =
     (case op of
        Plus_op \<Rightarrow> Plus_evalRator a b s
      | Minus \<Rightarrow> Minus_evalRator a b s
      | Mult \<Rightarrow> Mult_evalRator a b s
      | Div \<Rightarrow> Div_evalRator a b s
      | Modulo \<Rightarrow> Modulo_evalRator a b s
      | Expt \<Rightarrow> Expt_evalRator a b s
      | Less \<Rightarrow> Less_evalRator a b s
      | LessEq \<Rightarrow> LessEq_evalRator a b s
      | Equal \<Rightarrow> Equal_evalRator a b s
      | GreaterEq \<Rightarrow> GreaterEq_evalRator a b s
      | Greater \<Rightarrow> Greater_evalRator a b s
      | Cons_op \<Rightarrow> Cons_evalRator a b s
      | SetCar \<Rightarrow> SetCar_evalRator a b s
      | SetCdr \<Rightarrow> SetCdr_evalRator a b s
      | IsEq \<Rightarrow> IsEq_evalRator a b s)"

text \<open>
  The bodies of PlusVar, MinusVar, MultVar, DivVar, LessVar, LessEqVar, EqualVar,
  GreaterEqVar and GreaterVar \<open>::evalRator\<close> hold a TODO comment and no statement: control
  reaches the closing brace of a function that returns a Value.
\<close>

definition Variadic_evalRator :: "variadic_op \<Rightarrow> Value list \<Rightarrow> State \<Rightarrow> outcome" where
  "Variadic_evalRator op args s =
     (case op of
        ListFunc \<Rightarrow> ListFunc_evalRator args s
      | _ \<Rightarrow> (Inl MissingReturn, s))"

section \<open>The primitive and reserved-word tables\<close>

text \<open>
  Modelled from the spec: the table \<open>primitives\<close>, declared \<open>extern\<close> in both sources
  and defined in neither. Section 3: "mapping a surface-syntax name to the expression-tree
  node kind that implements it". The names are those of the parser's own messages
  ("Wrong number of arguments for ...") and of sections 4.1, 4.2 and 4.5.
\<close>

definition primitives :: "(string \<times> ExprType) list" where
  "primitives =
     [(''+'', E_PLUS), (''-'', E_MINUS), (''*'', E_MUL), (''/'', E_DIV),
      (''modulo'', E_MODULO), (''expt'', E_EXPT),
      (''<'', E_LT), (''<='', E_LE), (''='', E_EQ), (''>='', E_GE), (''>'', E_GT),
      (''cons'', E_CONS), (''car'', E_CAR), (''cdr'', E_CDR), (''list'', E_LIST),
      (''set-car!'', E_SETCAR), (''set-cdr!'', E_SETCDR), (''not'', E_NOT),
      (''eq?'', E_EQQ), (''boolean?'', E_BOOLQ), (''number?'', E_INTQ),
      (''null?'', E_NULLQ), (''pair?'', E_PAIRQ), (''procedure?'', E_PROCQ),
      (''symbol?'', E_SYMBOLQ), (''list?'', E_LISTQ), (''string?'', E_STRINGQ),
      (''display'', E_DISPLAY), (''void'', E_VOID), (''exit'', E_EXIT)]"

text \<open>
  Modelled from the spec: the table \<open>reserved_words\<close>, declared \<open>extern\<close> in both sources
  and defined in neither; its names are the special forms of section 4.4 that the switch
  of List::parse handles.
\<close>

definition reserved_words :: "(string \<times> ExprType) list" where
  "reserved_words =
     [(''begin'', E_BEGIN), (''quote'', E_QUOTE), (''if'', E_IF), (''cond'', E_COND),
      (''lambda'', E_LAMBDA), (''define'', E_DEFINE), (''let'', E_LET),
      (''letrec'', E_LETREC), (''set!'', E_SET)]"

text \<open>The static table inside Var::eval: a body and a parameter list for 17 tags.\<close>

definition primitive_map :: "(ExprType \<times> Expr \<times> string list) list" where
  "primitive_map =
     [(E_VOID, MakeVoid, []),
      (E_EXIT, Exit, []),
      (E_BOOLQ, Unary IsBoolean (Var ''parm''), [''parm'']),
      (E_INTQ, Unary IsFixnum (Var ''parm''), [''parm'']),
      (E_NULLQ, Unary IsNull (Var ''parm''), [''parm'']),
      (E_PAIRQ, Unary IsPair (Var ''parm''), [''parm'']),
      (E_PROCQ, Unary IsProcedure (Var ''parm''), [''parm'']),
      (E_SYMBOLQ, Unary IsSymbol (Var ''parm''), [''parm'']),
      (E_STRINGQ, Unary IsString (Var ''parm''), [''parm'']),
      (E_DISPLAY, Unary Display (Var ''parm''), [''parm'']),
      (E_PLUS, Variadic PlusVar [], []),
      (E_MINUS, Variadic MinusVar [], []),
      (E_MUL, Variadic MultVar [], []),
      (E_DIV, Variadic DivVar [], []),
      (E_MODULO, Binary Modulo (Var ''parm1'') (Var ''parm2''), [''parm1'', ''parm2'']),
      (E_EXPT, Binary Expt (Var ''parm1'') (Var ''parm2''), [''parm1'', ''parm2'']),
      (E_EQQ, Variadic EqualVar [], [])]"

section \<open>Evaluation (evaluation.cpp)\<close>

text \<open>
  \<open>eval\<close> takes its environment by reference (\<open>Assoc &e\<close>) and Define::eval assigns to
  it, so an evaluation returns the environment handle of its caller along with the state.
\<close>

type_synonym result = "(error + Value) \<times> Assoc \<times> State"

type_synonym evaluator = "Expr \<Rightarrow> Assoc \<Rightarrow> State \<Rightarrow> result"

definition with_env :: "Assoc \<Rightarrow> outcome \<Rightarrow> result" where
  "with_env e r = (fst r, e, snd r)"

text \<open>
  Binary::eval passes \<open>rand1->eval(e)\<close> and \<open>rand2->eval(e)\<close> as the two arguments of one
  call. C++ does not fix the order in which the arguments of a call are evaluated; the
  compiler chooses, and the choice is a parameter of the model.
\<close>

datatype arg_order = LeftToRight | RightToLeft

text \<open>The loop \<open>for (auto &ex : rands) vals.push_back(ex->eval(e))\<close>.\<close>

fun eval_rands :: "evaluator \<Rightarrow> Expr list \<Rightarrow> Assoc \<Rightarrow> State \<Rightarrow> (error + Value list) \<times> Assoc \<times> State" where
  "eval_rands ev [] e s = (Inr [], e, s)"
| "eval_rands ev (ex # es) e s =
     (case ev ex e s of
        (Inl err, e1, s1) \<Rightarrow> (Inl err, e1, s1)
      | (Inr v, e1, s1) \<Rightarrow>
          (case eval_rands ev es e1 s1 of
             (Inl err, e2, s2) \<Rightarrow> (Inl err, e2, s2)
           | (Inr vs, e2, s2) \<Rightarrow> (Inr (v # vs), e2, s2)))"

definition Unary_eval :: "evaluator \<Rightarrow> nat \<Rightarrow> unary_op \<Rightarrow> Expr \<Rightarrow> Assoc \<Rightarrow> State \<Rightarrow> result" where
  "Unary_eval ev k op rand e s =
     (case ev rand e s of
        (Inl err, e1, s1) \<Rightarrow> (Inl err, e1, s1)
      | (Inr v, e1, s1) \<Rightarrow> with_env e1 (Unary_evalRator k op v s1))"

definition Binary_eval :: "evaluator \<Rightarrow> arg_order \<Rightarrow> binary_op \<Rightarrow> Expr \<Rightarrow> Expr \<Rightarrow> Assoc \<Rightarrow> State \<Rightarrow> result" where
  "Binary_eval ev ord op rand1 rand2 e s =
     (case ord of
        LeftToRight \<Rightarrow>
          (case ev rand1 e s of
             (Inl err, e1, s1) \<Rightarrow> (Inl err, e1, s1)
           | (Inr v1, e1, s1) \<Rightarrow>
               (case ev rand2 e1 s1 of
                  (Inl err, e2, s2) \<Rightarrow> (Inl err, e2, s2)
                | (Inr v2, e2, s2) \<Rightarrow> with_env e2 (Binary_evalRator op v1 v2 s2)))
      | RightToLeft \<Rightarrow>
          (case ev rand2 e s of
             (Inl err, e1, s1) \<Rightarrow> (Inl err, e1, s1)
           | (Inr v2, e1, s1) \<Rightarrow>
               (case ev rand1 e1 s1 of
                  (Inl err, e2, s2) \<Rightarrow> (Inl err, e2, s2)
                | (Inr v1, e2, s2) \<Rightarrow> with_env e2 (Binary_evalRator op v1 v2 s2))))"

definition Variadic_eval :: "evaluator \<Rightarrow> variadic_op \<Rightarrow> Expr list \<Rightarrow> Assoc \<Rightarrow> State \<Rightarrow> result" where
  "Variadic_eval ev op rands e s =
     (case eval_rands ev rands e s of
        (Inl err, e1, s1) \<Rightarrow> (Inl err, e1, s1)
      | (Inr vals, e1, s1) \<Rightarrow> with_env e1 (Variadic_evalRator op vals s1))"

text \<open>
  Var::eval. The only \<open>return\<close> statements are the one inside the test on
  \<open>primitive_map\<close> and the final \<open>return matched_value\<close>; no path throws.
\<close>

definition Var_eval :: "string \<Rightarrow> Assoc \<Rightarrow> State \<Rightarrow> result" where
  "Var_eval x e s =
     (let matched_value = find x e s in
      if matched_value = None then
        (case map_of primitives x of
           Some t \<Rightarrow>
             (case map_of primitive_map t of
                Some (body, params) \<Rightarrow> with_env e (ret (ProcedureV params body e s))
              | None \<Rightarrow> (Inr matched_value, e, s))
         | None \<Rightarrow> (Inr matched_value, e, s))
      else (Inr matched_value, e, s))"

fun Begin_loop :: "evaluator \<Rightarrow> Expr list \<Rightarrow> Value \<Rightarrow> Assoc \<Rightarrow> State \<Rightarrow> result" where
  "Begin_loop ev [] lastv e s = (Inr lastv, e, s)"
| "Begin_loop ev (ex # es) lastv e s =
     (case ev ex e s of
        (Inl err, e1, s1) \<Rightarrow> (Inl err, e1, s1)
      | (Inr v, e1, s1) \<Rightarrow> Begin_loop ev es v e1 s1)"

definition Begin_eval :: "evaluator \<Rightarrow> Expr list \<Rightarrow> Assoc \<Rightarrow> State \<Rightarrow> result" where
  "Begin_eval ev es e s = (case VoidV s of (lastv, s1) \<Rightarrow> Begin_loop ev es lastv e s1)"

text \<open>
  Quote::eval rebuilds the syntax as a value; a list is consed from its last element back
  to its first, each element quoted in turn.
\<close>

fun Quote_eval :: "Syntax \<Rightarrow> State \<Rightarrow> Value \<times> State"
  and Quote_loop :: "Syntax list \<Rightarrow> State \<Rightarrow> Value \<times> State" where
  "Quote_eval (Number n) s = IntegerV n s"
| "Quote_eval (RationalSyntax n d) s = RationalV n d s"
| "Quote_eval TrueSyntax s = BooleanV True s"
| "Quote_eval FalseSyntax s = BooleanV False s"
| "Quote_eval (StringSyntax str) s = StringV str s"
| "Quote_eval (SymbolSyntax str) s = SymbolV str s"
| "Quote_eval (List stxs) s = Quote_loop stxs s"
| "Quote_loop [] s = NullV s"
| "Quote_loop (stx # stxs) s =
     (case Quote_loop stxs s of
        (result, s1) \<Rightarrow>
          (case Quote_eval stx s1 of
             (elem, s2) \<Rightarrow> PairV elem result s2))"

text \<open>Only the Boolean false is false.\<close>

definition is_false :: "ValueBase \<Rightarrow> bool" where
  "is_false x = (x = Boolean False)"

fun AndVar_loop :: "evaluator \<Rightarrow> Expr list \<Rightarrow> Value \<Rightarrow> Assoc \<Rightarrow> State \<Rightarrow> result" where
  "AndVar_loop ev [] lastv e s = (Inr lastv, e, s)"
| "AndVar_loop ev (ex # es) lastv e s =
     (case ev ex e s of
        (Inl err, e1, s1) \<Rightarrow> (Inl err, e1, s1)
      | (Inr v, e1, s1) \<Rightarrow>
          (case deref v s1 of
             Inl err \<Rightarrow> (Inl err, e1, s1)
           | Inr x \<Rightarrow> if is_false x then (Inr v, e1, s1) else AndVar_loop ev es v e1 s1))"

definition AndVar_eval :: "evaluator \<Rightarrow> Expr list \<Rightarrow> Assoc \<Rightarrow> State \<Rightarrow> result" where
  "AndVar_eval ev rands e s =
     (case BooleanV True s of (lastv, s1) \<Rightarrow> AndVar_loop ev rands lastv e s1)"

fun OrVar_loop :: "evaluator \<Rightarrow> Expr list \<Rightarrow> Value \<Rightarrow> Assoc \<Rightarrow> State \<Rightarrow> result" where
  "OrVar_loop ev [] lastv e s = (Inr lastv, e, s)"
| "OrVar_loop ev (ex # es) lastv e s =
     (case ev ex e s of
        (Inl err, e1, s1) \<Rightarrow> (Inl err, e1, s1)
      | (Inr v, e1, s1) \<Rightarrow>
          (case deref v s1 of
             Inl err \<Rightarrow> (Inl err, e1, s1)
           | Inr x \<Rightarrow> if \<not> is_false x then (Inr v, e1, s1) else OrVar_loop ev es v e1 s1))"

definition OrVar_eval :: "evaluator \<Rightarrow> Expr list \<Rightarrow> Assoc \<Rightarrow> State \<Rightarrow> result" where
  "OrVar_eval ev rands e s =
     (case BooleanV False s of (lastv, s1) \<Rightarrow> OrVar_loop ev rands lastv e s1)"

definition If_eval :: "evaluator \<Rightarrow> Expr \<Rightarrow> Expr \<Rightarrow> Expr \<Rightarrow> Assoc \<Rightarrow> State \<Rightarrow> result" where
  "If_eval ev cond conseq alter e s =
     (case ev cond e s of
        (Inl err, e1, s1) \<Rightarrow> (Inl err, e1, s1)
      | (Inr c, e1, s1) \<Rightarrow>
          (case deref c s1 of
             Inl err \<Rightarrow> (Inl err, e1, s1)
           | Inr x \<Rightarrow> if \<not> is_false x then ev conseq e1 s1 else ev alter e1 s1))"

text \<open>
  Cond::eval holds a TODO comment and no statement: control reaches the closing brace of
  a function that returns a Value, whatever the clauses are.
\<close>

definition Cond_eval :: "Expr list list \<Rightarrow> Assoc \<Rightarrow> State \<Rightarrow> result" where
  "Cond_eval clauses env s = (Inl MissingReturn, env, s)"

definition Lambda_eval :: "string list \<Rightarrow> Expr \<Rightarrow> Assoc \<Rightarrow> State \<Rightarrow> result" where
  "Lambda_eval x e env s = with_env env (ret (ProcedureV x e env s))"

text \<open>
  The loop of Apply::eval that builds the call environment:
  \<open>call_env = extend(parameters[i], args[i], call_env)\<close> for each index in turn.
\<close>

fun bind_params :: "string list \<Rightarrow> Value list \<Rightarrow> Assoc \<Rightarrow> State \<Rightarrow> Assoc \<times> State" where
  "bind_params (p # ps) (a # as) call_env s =
     (case extend p a call_env s of (call_env1, s1) \<Rightarrow> bind_params ps as call_env1 s1)"
| "bind_params _ _ call_env s = (call_env, s)"

text \<open>
  Apply::eval. The closure's fields are read through \<open>clos_ptr\<close> after the arguments are
  evaluated; a Procedure object is never written after its construction, so the model
  reads them with the kind test.
\<close>

definition Apply_eval :: "evaluator \<Rightarrow> Expr \<Rightarrow> Expr list \<Rightarrow> Assoc \<Rightarrow> State \<Rightarrow> result" where
  "Apply_eval ev rator rand e s =
     (case ev rator e s of
        (Inl err, e1, s1) \<Rightarrow> (Inl err, e1, s1)
      | (Inr proc, e1, s1) \<Rightarrow>
          (case deref proc s1 of
             Inl err \<Rightarrow> (Inl err, e1, s1)
           | Inr (Procedure parameters body clos_env) \<Rightarrow>
               (case eval_rands ev rand e1 s1 of
                  (Inl err, e2, s2) \<Rightarrow> (Inl err, e2, s2)
                | (Inr args, e2, s2) \<Rightarrow>
                    if length args \<noteq> length parameters
                      then (Inl (RuntimeError ''Wrong number of arguments''), e2, s2)
                    else
                      (case bind_params parameters args clos_env s2 of
                         (call_env, s3) \<Rightarrow>
                           (case ev body call_env s3 of
                              (r, call_env1, s4) \<Rightarrow> (r, e2, s4))))
           | Inr _ \<Rightarrow> (Inl (RuntimeError ''Attempt to apply a non-procedure''), e1, s1)))"

definition Define_eval :: "evaluator \<Rightarrow> string \<Rightarrow> Expr \<Rightarrow> Assoc \<Rightarrow> State \<Rightarrow> result" where
  "Define_eval ev var ex env s =
     (case ev ex env s of
        (Inl err, env1, s1) \<Rightarrow> (Inl err, env1, s1)
      | (Inr v, env1, s1) \<Rightarrow>
          if find var env1 s1 \<noteq> None then
            (case modify var v env1 s1 of
               Inl err \<Rightarrow> (Inl err, env1, s1)
             | Inr s2 \<Rightarrow> (Inr v, env1, s2))
          else
            (case extend var v env1 s1 of
               (env2, s2) \<Rightarrow> (Inr v, env2, s2)))"

fun Let_loop :: "evaluator \<Rightarrow> (string \<times> Expr) list \<Rightarrow> Assoc \<Rightarrow> Assoc \<Rightarrow> State \<Rightarrow> (error + Assoc) \<times> Assoc \<times> State" where
  "Let_loop ev [] env local s = (Inr local, env, s)"
| "Let_loop ev (p # bind) env local s =
     (case ev (snd p) env s of
        (Inl err, env1, s1) \<Rightarrow> (Inl err, env1, s1)
      | (Inr v, env1, s1) \<Rightarrow>
          (case extend (fst p) v local s1 of
             (local1, s2) \<Rightarrow> Let_loop ev bind env1 local1 s2))"

definition Let_eval :: "evaluator \<Rightarrow> (string \<times> Expr) list \<Rightarrow> Expr \<Rightarrow> Assoc \<Rightarrow> State \<Rightarrow> result" where
  "Let_eval ev bind body env s =
     (case Let_loop ev bind env env s of
        (Inl err, env1, s1) \<Rightarrow> (Inl err, env1, s1)
      | (Inr local, env1, s1) \<Rightarrow>
          (case ev body local s1 of
             (r, local1, s2) \<Rightarrow> (r, env1, s2)))"

text \<open>The three loops of Letrec::eval.\<close>

fun Letrec_placeholders :: "string list \<Rightarrow> Assoc \<Rightarrow> State \<Rightarrow> Assoc \<times> State" where
  "Letrec_placeholders [] env1 s = (env1, s)"
| "Letrec_placeholders (x # xs) env1 s =
     (case extend x None env1 s of (env2, s1) \<Rightarrow> Letrec_placeholders xs env2 s1)"

fun Letrec_modify :: "string list \<Rightarrow> Value list \<Rightarrow> Assoc \<Rightarrow> State \<Rightarrow> error option \<times> State" where
  "Letrec_modify (x # xs) (v # vs) env2 s =
     (case modify x v env2 s of
        Inl err \<Rightarrow> (Some err, s)
      | Inr s1 \<Rightarrow> Letrec_modify xs vs env2 s1)"
| "Letrec_modify _ _ env2 s = (None, s)"

definition Letrec_eval :: "evaluator \<Rightarrow> (string \<times> Expr) list \<Rightarrow> Expr \<Rightarrow> Assoc \<Rightarrow> State \<Rightarrow> result" where
  "Letrec_eval ev bind body env s =
     (case Letrec_placeholders (map fst bind) env s of
        (env1, s1) \<Rightarrow>
          (case eval_rands ev (map snd bind) env1 s1 of
             (Inl err, env2, s2) \<Rightarrow> (Inl err, env, s2)
           | (Inr vals, env2, s2) \<Rightarrow>
               (case Letrec_modify (map fst bind) vals env2 s2 of
                  (Some err, s3) \<Rightarrow> (Inl err, env, s3)
                | (None, s3) \<Rightarrow>
                    (case ev body env2 s3 of
                       (r, env3, s4) \<Rightarrow> (r, env, s4)))))"

definition Set_eval :: "evaluator \<Rightarrow> string \<Rightarrow> Expr \<Rightarrow> Assoc \<Rightarrow> State \<Rightarrow> result" where
  "Set_eval ev var ex env s =
     (case ev ex env s of
        (Inl err, env1, s1) \<Rightarrow> (Inl err, env1, s1)
      | (Inr v, env1, s1) \<Rightarrow>
          (case modify var v env1 s1 of
             Inl err \<Rightarrow> (Inl err, env1, s1)
           | Inr s2 \<Rightarrow> (Inr v, env1, s2)))"

text \<open>
  The virtual call \<open>ex->eval(e)\<close>. A program may recurse without end, so the evaluator
  carries a bound \<open>k\<close> on the depth of nested \<open>eval\<close> calls and answers \<open>OutOfFuel\<close> when
  the bound is reached.
\<close>

primrec eval :: "nat \<Rightarrow> arg_order \<Rightarrow> Expr \<Rightarrow> Assoc \<Rightarrow> State \<Rightarrow> result" where
  "eval 0 ord ex e s = (Inl OutOfFuel, e, s)"
| "eval (Suc k) ord ex e s =
     (case ex of
        Fixnum n \<Rightarrow> with_env e (ret (IntegerV n s))
      | RationalNum n d \<Rightarrow> with_env e (ret (RationalV n d s))
      | StringExpr str \<Rightarrow> with_env e (ret (StringV str s))
      | True_expr \<Rightarrow> with_env e (ret (BooleanV True s))
      | False_expr \<Rightarrow> with_env e (ret (BooleanV False s))
      | MakeVoid \<Rightarrow> with_env e (ret (VoidV s))
      | Exit \<Rightarrow> with_env e (ret (TerminateV s))
      | Unary op rand \<Rightarrow> Unary_eval (eval k ord) k op rand e s
      | Binary op rand1 rand2 \<Rightarrow> Binary_eval (eval k ord) ord op rand1 rand2 e s
      | Variadic op rands \<Rightarrow> Variadic_eval (eval k ord) op rands e s
      | Var x \<Rightarrow> Var_eval x e s
      | Begin es \<Rightarrow> Begin_eval (eval k ord) es e s
      | Quote stx \<Rightarrow> with_env e (ret (Quote_eval stx s))
      | AndVar rands \<Rightarrow> AndVar_eval (eval k ord) rands e s
      | OrVar rands \<Rightarrow> OrVar_eval (eval k ord) rands e s
      | If_expr cond conseq alter \<Rightarrow> If_eval (eval k ord) cond conseq alter e s
      | Cond clauses \<Rightarrow> Cond_eval clauses e s
      | Lambda x body \<Rightarrow> Lambda_eval x body e s
      | Apply rator rand \<Rightarrow> Apply_eval (eval k ord) rator rand e s
      | Define var ex1 \<Rightarrow> Define_eval (eval k ord) var ex1 e s
      | Let_expr bind body \<Rightarrow> Let_eval (eval k ord) bind body e s
      | Letrec bind body \<Rightarrow> Letrec_eval (eval k ord) bind body e s
      | Set_expr var ex1 \<Rightarrow> Set_eval (eval k ord) var ex1 e s)"

section \<open>Parsing (parser.cpp)\<close>

text \<open>
  \<open>parse\<close> reads the environment, to decide whether a leading symbol is bound, and writes
  nothing; it returns the expression tree or the RuntimeError it throws.
\<close>

type_synonym parser = "Syntax \<Rightarrow> error + Expr"

text \<open>
  The loop \<open>for (i = 1; i < stxs.size(); ++i) parameters.push_back(stxs[i]->parse(env))\<close>,
  which the first throw leaves.
\<close>

fun parse_all :: "parser \<Rightarrow> Syntax list \<Rightarrow> error + Expr list" where
  "parse_all f [] = Inr []"
| "parse_all f (stx # stxs) =
     (case f stx of
        Inl err \<Rightarrow> Inl err
      | Inr ex \<Rightarrow>
          (case parse_all f stxs of
             Inl err \<Rightarrow> Inl err
           | Inr exs \<Rightarrow> Inr (ex # exs)))"

lemma parse_all_cong [fundef_cong]:
  "xs = ys \<Longrightarrow> (\<And>x. x \<in> set ys \<Longrightarrow> f x = g x) \<Longrightarrow> parse_all f xs = parse_all g ys"
  by (induction ys arbitrary: xs) (auto split: sum.splits)

text \<open>The parameter list of a \<open>lambda\<close>: symbols only.\<close>

fun parse_params :: "Syntax list \<Rightarrow> error + string list" where
  "parse_params [] = Inr []"
| "parse_params (p # ps) =
     (case p of
        SymbolSyntax sid \<Rightarrow>
          (case parse_params ps of
             Inl err \<Rightarrow> Inl err
           | Inr params \<Rightarrow> Inr (sid # params))
      | _ \<Rightarrow> Inl (RuntimeError ''lambda param must be symbol''))"

text \<open>
  The binding loop shared by \<open>let\<close> and \<open>letrec\<close>, which differ in their two messages:
  each binding is checked for its shape, then for its name, then its expression is parsed.
\<close>

fun parse_bindings :: "parser \<Rightarrow> string \<Rightarrow> string \<Rightarrow> Syntax list \<Rightarrow> error + (string \<times> Expr) list" where
  "parse_bindings f msg1 msg2 [] = Inr []"
| "parse_bindings f msg1 msg2 (b # bs) =
     (case b of
        List pairlst \<Rightarrow>
          if length pairlst \<noteq> 2 then Inl (RuntimeError msg1)
          else
            (case pairlst ! 0 of
               SymbolSyntax sid \<Rightarrow>
                 (case f (pairlst ! 1) of
                    Inl err \<Rightarrow> Inl err
                  | Inr ex \<Rightarrow>
                      (case parse_bindings f msg1 msg2 bs of
                         Inl err \<Rightarrow> Inl err
                       | Inr vec \<Rightarrow> Inr ((sid, ex) # vec)))
             | _ \<Rightarrow> Inl (RuntimeError msg2))
      | _ \<Rightarrow> Inl (RuntimeError msg1))"

lemma parse_bindings_cong [fundef_cong]:
  "bs = cs \<Longrightarrow> (\<And>pairlst. List pairlst \<in> set cs \<Longrightarrow> length pairlst = 2 \<Longrightarrow> f (pairlst ! 1) = g (pairlst ! 1))
   \<Longrightarrow> parse_bindings f m1 m2 bs = parse_bindings g m1 m2 cs"
  by (induction cs arbitrary: bs) (auto split: sum.splits Syntax.splits)

text \<open>The clause loop of \<open>cond\<close>: a clause is a non-empty list, parsed item by item.\<close>

fun parse_clauses :: "parser \<Rightarrow> Syntax list \<Rightarrow> error + Expr list list" where
  "parse_clauses f [] = Inr []"
| "parse_clauses f (c # cs) =
     (case c of
        List clause \<Rightarrow>
          if clause = [] then Inl (RuntimeError ''cond clause must be a list'')
          else
            (case parse_all f clause of
               Inl err \<Rightarrow> Inl err
             | Inr ce \<Rightarrow>
                 (case parse_clauses f cs of
                    Inl err \<Rightarrow> Inl err
                  | Inr clauses \<Rightarrow> Inr (ce # clauses)))
      | _ \<Rightarrow> Inl (RuntimeError ''cond clause must be a list''))"

lemma parse_clauses_cong [fundef_cong]:
  "cs = ds \<Longrightarrow> (\<And>clause x. List clause \<in> set ds \<Longrightarrow> x \<in> set clause \<Longrightarrow> f x = g x)
   \<Longrightarrow> parse_clauses f cs = parse_clauses g ds"
proof (induction ds arbitrary: cs)
  case Nil
  then show ?case by simp
next
  case (Cons d ds)
  have "parse_clauses f ds = parse_clauses g ds"
    using Cons.prems by (intro Cons.IH) auto
  moreover have "parse_all f clause = parse_all g clause" if "d = List clause" for clause
    using Cons.prems that by (intro parse_all_cong) auto
  ultimately show ?case
    using Cons.prems(1) by (cases d) (simp_all split: sum.splits)
qed

text \<open>
  The three sub-parses of \<open>if\<close> are the arguments of one constructor call,
  \<open>new If(stxs[1]->parse(env), stxs[2]->parse(env), stxs[3]->parse(env))\<close>; which of them
  throws first, when several do, follows the compiler's order for call arguments.
\<close>

definition parse_args :: "arg_order \<Rightarrow> parser \<Rightarrow> Syntax list \<Rightarrow> error + Expr list" where
  "parse_args ord f stxs =
     (case ord of
        LeftToRight \<Rightarrow> parse_all f stxs
      | RightToLeft \<Rightarrow>
          (case parse_all f (rev stxs) of
             Inl err \<Rightarrow> Inl err
           | Inr exs \<Rightarrow> Inr (rev exs)))"

lemma parse_args_cong [fundef_cong]:
  "xs = ys \<Longrightarrow> (\<And>x. x \<in> set ys \<Longrightarrow> f x = g x) \<Longrightarrow> parse_args ord f xs = parse_args ord g ys"
proof -
  assume eq: "xs = ys" and fg: "\<And>x. x \<in> set ys \<Longrightarrow> f x = g x"
  have fwd: "parse_all f ys = parse_all g ys"
    using fg by (intro parse_all_cong) auto
  have bwd: "parse_all f (rev ys) = parse_all g (rev ys)"
    using fg by (intro parse_all_cong) auto
  show ?thesis
    unfolding parse_args_def eq fwd bwd by (rule refl)
qed

text \<open>
  The chain of tests on \<open>op_type\<close> once the operands of a primitive are parsed. Its last
  branch parses the operands a second time, with the same result, and applies the
  variable of the operator's name.
\<close>

definition parse_primitive :: "string \<Rightarrow> ExprType \<Rightarrow> Expr list \<Rightarrow> error + Expr" where
  "parse_primitive op op_type parameters =
     (case op_type of
        E_PLUS \<Rightarrow>
          if length parameters = 2 then Inr (Binary Plus_op (parameters ! 0) (parameters ! 1))
          else Inl (RuntimeError ''Wrong number of arguments for +'')
      | E_MINUS \<Rightarrow>
          if length parameters = 2 then Inr (Binary Minus (parameters ! 0) (parameters ! 1))
          else Inl (RuntimeError ''Wrong number of arguments for -'')
      | E_MUL \<Rightarrow>
          if length parameters = 2 then Inr (Binary Mult (parameters ! 0) (parameters ! 1))
          else Inl (RuntimeError ''Wrong number of arguments for *'')
      | E_DIV \<Rightarrow>
          if length parameters = 2 then Inr (Binary Div (parameters ! 0) (parameters ! 1))
          else Inl (RuntimeError ''Wrong number of arguments for /'')
      | E_MODULO \<Rightarrow>
          if length parameters \<noteq> 2 then Inl (RuntimeError ''Wrong number of arguments for modulo'')
          else Inr (Binary Modulo (parameters ! 0) (parameters ! 1))
      | E_LIST \<Rightarrow> Inr (Variadic ListFunc parameters)
      | E_CONS \<Rightarrow>
          if length parameters \<noteq> 2 then Inl (RuntimeError ''Wrong number of arguments for cons'')
          else Inr (Binary Cons_op (parameters ! 0) (parameters ! 1))
      | E_CAR \<Rightarrow>
          if length parameters \<noteq> 1 then Inl (RuntimeError ''Wrong number of arguments for car'')
          else Inr (Unary Car (parameters ! 0))
      | E_CDR \<Rightarrow>
          if length parameters \<noteq> 1 then Inl (RuntimeError ''Wrong number of arguments for cdr'')
          else Inr (Unary Cdr (parameters ! 0))
      | E_SETCAR \<Rightarrow>
          if length parameters \<noteq> 2 then Inl (RuntimeError ''Wrong number of arguments for set-car!'')
          else Inr (Binary SetCar (parameters ! 0) (parameters ! 1))
      | E_SETCDR \<Rightarrow>
          if length parameters \<noteq> 2 then Inl (RuntimeError ''Wrong number of arguments for set-cdr!'')
          else Inr (Binary SetCdr (parameters ! 0) (parameters ! 1))
      | E_NOT \<Rightarrow>
          if length parameters \<noteq> 1 then Inl (RuntimeError ''Wrong number of arguments for not'')
          else Inr (Unary Not_op (parameters ! 0))
      | E_DISPLAY \<Rightarrow>
          if length parameters \<noteq> 1 then Inl (RuntimeError ''Wrong number of arguments for display'')
          else Inr (Unary Display (parameters ! 0))
      | E_EQQ \<Rightarrow>
          if length parameters \<noteq> 2 then Inl (RuntimeError ''Wrong number of arguments for eq?'')
          else Inr (Binary IsEq (parameters ! 0) (parameters ! 1))
      | E_BOOLQ \<Rightarrow>
          if length parameters \<noteq> 1 then Inl (RuntimeError ''Wrong number of arguments for boolean?'')
          else Inr (Unary IsBoolean (parameters ! 0))
      | E_INTQ \<Rightarrow>
          if length parameters \<noteq> 1 then Inl (RuntimeError ''Wrong number of arguments for number?'')
          else Inr (Unary IsFixnum (parameters ! 0))
      | E_NULLQ \<Rightarrow>
          if length parameters \<noteq> 1 then Inl (RuntimeError ''Wrong number of arguments for null?'')
          else Inr (Unary IsNull (parameters ! 0))
      | E_PAIRQ \<Rightarrow>
          if length parameters \<noteq> 1 then Inl (RuntimeError ''Wrong number of arguments for pair?'')
          else Inr (Unary IsPair (parameters ! 0))
      | E_PROCQ \<Rightarrow>
          if length parameters \<noteq> 1 then Inl (RuntimeError ''Wrong number of arguments for procedure?'')
          else Inr (Unary IsProcedure (parameters ! 0))
      | E_SYMBOLQ \<Rightarrow>
          if length parameters \<noteq> 1 then Inl (RuntimeError ''Wrong number of arguments for symbol?'')
          else Inr (Unary IsSymbol (parameters ! 0))
      | E_LISTQ \<Rightarrow>
          if length parameters \<noteq> 1 then Inl (RuntimeError ''Wrong number of arguments for list?'')
          else Inr (Unary IsList (parameters ! 0))
      | E_STRINGQ \<Rightarrow>
          if length parameters \<noteq> 1 then Inl (RuntimeError ''Wrong number of arguments for string?'')
          else Inr (Unary IsString (parameters ! 0))
      | _ \<Rightarrow> Inr (Apply (Var op) parameters))"

text \<open>Every syntax node that List::parse descends into is smaller than the list.\<close>

lemma size_elem: "x \<in> set xs \<Longrightarrow> size x < Suc (size_list size xs)"
  for x :: Syntax
  by (induction xs) auto

lemma size_nth: "i < length xs \<Longrightarrow> size (xs ! i) < Suc (size_list size xs)"
  for xs :: "Syntax list"
  by (simp add: size_elem)

lemma size_tl: "x \<in> set (tl xs) \<Longrightarrow> size x < Suc (size_list size xs)"
  for x :: Syntax
  by (cases xs) (auto dest: size_elem)

lemma size_binding:
  assumes "\<not> length stxs < 3" and "stxs ! Suc 0 = List binds"
    and "List pairlst \<in> set binds" and "length pairlst = 2"
  shows "size (pairlst ! Suc 0) < Suc (size_list size stxs)"
proof -
  have "size (pairlst ! Suc 0) < Suc (size_list size pairlst)"
    using assms(4) by (simp add: size_nth)
  also have "\<dots> = size (List pairlst)"
    by simp
  also have "\<dots> < Suc (size_list size binds)"
    using assms(3) by (rule size_elem)
  also have "\<dots> = size (stxs ! Suc 0)"
    using assms(2) by simp
  also have "\<dots> < Suc (size_list size stxs)"
    using assms(1) by (intro size_nth) simp
  finally show ?thesis .
qed

lemma size_clause:
  assumes "List clause \<in> set (tl stxs)" and "x \<in> set clause"
  shows "size x < Suc (size_list size stxs)"
proof -
  have "size x < Suc (size_list size clause)"
    using assms(2) by (rule size_elem)
  also have "\<dots> = size (List clause)"
    by simp
  also have "\<dots> < Suc (size_list size stxs)"
    using assms(1) by (rule size_tl)
  finally show ?thesis .
qed

lemma size_hd:
  assumes "stxs \<noteq> []" and "hd stxs = List xs"
  shows "size_list size xs < size_list size stxs"
  using assms by (cases stxs) auto

text \<open>
  \<open>parse\<close>, one equation per Syntax class; the last is List::parse.
\<close>

function parse :: "arg_order \<Rightarrow> Assoc \<Rightarrow> State \<Rightarrow> Syntax \<Rightarrow> error + Expr" where
  "parse ord env s (Number n) = Inr (Fixnum n)"
| "parse ord env s (RationalSyntax n d) = Inr (RationalNum n d)"
| "parse ord env s (SymbolSyntax x) = Inr (Var x)"
| "parse ord env s (StringSyntax str) = Inr (StringExpr str)"
| "parse ord env s TrueSyntax = Inr True_expr"
| "parse ord env s FalseSyntax = Inr False_expr"
| "parse ord env s (List stxs) =
     (if stxs = [] then Inr (Quote (List []))
      else
        (case hd stxs of
           SymbolSyntax op \<Rightarrow>
             if find op env s \<noteq> None then
               (case parse_all (parse ord env s) (tl stxs) of
                  Inl err \<Rightarrow> Inl err
                | Inr parameters \<Rightarrow> Inr (Apply (Var op) parameters))
             else
               (case map_of primitives op of
                  Some op_type \<Rightarrow>
                    (case parse_all (parse ord env s) (tl stxs) of
                       Inl err \<Rightarrow> Inl err
                     | Inr parameters \<Rightarrow> parse_primitive op op_type parameters)
                | None \<Rightarrow>
                    (case map_of reserved_words op of
                       Some E_BEGIN \<Rightarrow>
                         (case parse_all (parse ord env s) (tl stxs) of
                            Inl err \<Rightarrow> Inl err
                          | Inr seq \<Rightarrow> Inr (Begin seq))
                     | Some E_QUOTE \<Rightarrow>
                         if length stxs \<noteq> 2
                           then Inl (RuntimeError ''Wrong number of arguments for quote'')
                         else Inr (Quote (stxs ! 1))
                     | Some E_IF \<Rightarrow>
                         if length stxs \<noteq> 4
                           then Inl (RuntimeError ''Wrong number of arguments for if'')
                         else
                           (case parse_args ord (parse ord env s) (tl stxs) of
                              Inl err \<Rightarrow> Inl err
                            | Inr exs \<Rightarrow> Inr (If_expr (exs ! 0) (exs ! 1) (exs ! 2)))
                     | Some E_LAMBDA \<Rightarrow>
                         if length stxs < 3
                           then Inl (RuntimeError ''Wrong number of arguments for lambda'')
                         else
                           (case stxs ! 1 of
                              List plist \<Rightarrow>
                                (case parse_params plist of
                                   Inl err \<Rightarrow> Inl err
                                 | Inr params \<Rightarrow>
                                     (case parse ord env s (stxs ! 2) of
                                        Inl err \<Rightarrow> Inl err
                                      | Inr body \<Rightarrow> Inr (Lambda params body)))
                            | _ \<Rightarrow> Inl (RuntimeError ''lambda params must be a list''))
                     | Some E_DEFINE \<Rightarrow>
                         if length stxs \<noteq> 3
                           then Inl (RuntimeError ''Wrong number of arguments for define'')
                         else
                           (case stxs ! 1 of
                              SymbolSyntax name \<Rightarrow>
                                (case parse ord env s (stxs ! 2) of
                                   Inl err \<Rightarrow> Inl err
                                 | Inr ex \<Rightarrow> Inr (Define name ex))
                            | _ \<Rightarrow> Inl (RuntimeError ''define variable must be symbol''))
                     | Some E_LET \<Rightarrow>
                         if length stxs < 3
                           then Inl (RuntimeError ''Wrong number of arguments for let'')
                         else
                           (case stxs ! 1 of
                              List binds \<Rightarrow>
                                (case parse_bindings (parse ord env s)
                                        ''let binding must be (name expr)''
                                        ''let binding name must be symbol'' binds of
                                   Inl err \<Rightarrow> Inl err
                                 | Inr vec \<Rightarrow>
                                     (case parse ord env s (stxs ! 2) of
                                        Inl err \<Rightarrow> Inl err
                                      | Inr body \<Rightarrow> Inr (Let_expr vec body)))
                            | _ \<Rightarrow> Inl (RuntimeError ''let bindings must be list''))
                     | Some E_LETREC \<Rightarrow>
                         if length stxs < 3
                           then Inl (RuntimeError ''Wrong number of arguments for letrec'')
                         else
                           (case stxs ! 1 of
                              List binds \<Rightarrow>
                                (case parse_bindings (parse ord env s)
                                        ''letrec binding must be (name expr)''
                                        ''letrec binding name must be symbol'' binds of
                                   Inl err \<Rightarrow> Inl err
                                 | Inr vec \<Rightarrow>
                                     (case parse ord env s (stxs ! 2) of
                                        Inl err \<Rightarrow> Inl err
                                      | Inr body \<Rightarrow> Inr (Letrec vec body)))
                            | _ \<Rightarrow> Inl (RuntimeError ''letrec bindings must be list''))
                     | Some E_SET \<Rightarrow>
                         if length stxs \<noteq> 3
                           then Inl (RuntimeError ''Wrong number of arguments for set!'')
                         else
                           (case stxs ! 1 of
                              SymbolSyntax name \<Rightarrow>
                                (case parse ord env s (stxs ! 2) of
                                   Inl err \<Rightarrow> Inl err
                                 | Inr ex \<Rightarrow> Inr (Set_expr name ex))
                            | _ \<Rightarrow> Inl (RuntimeError ''set! target must be symbol''))
                     | Some E_COND \<Rightarrow>
                         (case parse_clauses (parse ord env s) (tl stxs) of
                            Inl err \<Rightarrow> Inl err
                          | Inr clauses \<Rightarrow> Inr (Cond clauses))
                     | Some _ \<Rightarrow> Inl (RuntimeError (''Unknown reserved word: '' @ op))
                     | None \<Rightarrow>
                         (case parse_all (parse ord env s) (tl stxs) of
                            Inl err \<Rightarrow> Inl err
                          | Inr parameters \<Rightarrow> Inr (Apply (Var op) parameters))))
         | _ \<Rightarrow>
             (case parse_all (parse ord env s) (tl stxs) of
                Inl err \<Rightarrow> Inl err
              | Inr args \<Rightarrow>
                  (case parse ord env s (hd stxs) of
                     Inl err \<Rightarrow> Inl err
                   | Inr rator \<Rightarrow> Inr (Apply rator args)))))"
  by pat_completeness auto

termination
  by (relation "measure (\<lambda>(ord, env, s, stx). size stx)")
    (auto simp: size_tl size_nth size_hd intro: size_binding size_clause)

section \<open>Top-level forms\<close>

text \<open>
  Modelled from the spec: the host driver, which is not among the sources. Section 2: "The
  parser runs once per top-level form"; section 4.4: "top-level define sequences
  accumulate bindings visible to subsequent top-level forms". Each form is parsed against
  the current environment and then evaluated against it; the driver stops at the first
  failure and otherwise returns the value of every form.
\<close>

fun run_forms :: "nat \<Rightarrow> arg_order \<Rightarrow> Syntax list \<Rightarrow> Assoc \<Rightarrow> State \<Rightarrow> (error + Value list) \<times> Assoc \<times> State" where
  "run_forms k ord [] env s = (Inr [], env, s)"
| "run_forms k ord (stx # stxs) env s =
     (case parse ord env s stx of
        Inl err \<Rightarrow> (Inl err, env, s)
      | Inr ex \<Rightarrow>
          (case eval k ord ex env s of
             (Inl err, env1, s1) \<Rightarrow> (Inl err, env1, s1)
           | (Inr v, env1, s1) \<Rightarrow>
               (case run_forms k ord stxs env1 s1 of
                  (Inl err, env2, s2) \<Rightarrow> (Inl err, env2, s2)
                | (Inr vs, env2, s2) \<Rightarrow> (Inr (v # vs), env2, s2))))"

section \<open>Observing results\<close>

text \<open>The object a result points to, when the evaluation returned a value.\<close>

definition result_object :: "result \<Rightarrow> ValueBase option" where
  "result_object r =
     (case r of
        (Inl err, env, s) \<Rightarrow> None
      | (Inr v, env, s) \<Rightarrow> (case deref v s of Inl err \<Rightarrow> None | Inr x \<Rightarrow> Some x))"

text \<open>The same for the outcome of a primitive operation.\<close>

definition returned_object :: "outcome \<Rightarrow> ValueBase option" where
  "returned_object r =
     (case r of
        (Inl err, s) \<Rightarrow> None
      | (Inr v, s) \<Rightarrow> (case deref v s of Inl err \<Rightarrow> None | Inr x \<Rightarrow> Some x))"

definition returned_bool :: "outcome \<Rightarrow> bool option" where
  "returned_bool r = (case returned_object r of Some (Boolean b) \<Rightarrow> Some b | _ \<Rightarrow> None)"

text \<open>The object that the value of the last top-level form points to.\<close>

definition last_value :: "(error + Value list) \<times> Assoc \<times> State \<Rightarrow> ValueBase option" where
  "last_value r =
     (case r of
        (Inl err, env, s) \<Rightarrow> None
      | (Inr vs, env, s) \<Rightarrow>
          if vs = [] then None
          else (case deref (last vs) s of Inl err \<Rightarrow> None | Inr x \<Rightarrow> Some x))"

text \<open>The object a name is bound to in the environment that the top-level forms leave.\<close>

definition final_binding :: "string \<Rightarrow> (error + Value list) \<times> Assoc \<times> State \<Rightarrow> ValueBase option" where
  "final_binding x r =
     (case r of
        (res, env, s) \<Rightarrow>
          (case deref (find x env s) s of Inl err \<Rightarrow> None | Inr obj \<Rightarrow> Some obj))"

text \<open>The numeric kinds, \<open>{integer, rational}\<close>.\<close>

definition is_numeric :: "ValueBase \<Rightarrow> bool" where
  "is_numeric x = (v_type x = V_INT \<or> v_type x = V_RATIONAL)"

text \<open>
  The pairs of kinds for which \<open>eq?\<close> looks at the content of its operands: both
  Integers, both Booleans, both Symbols, both Null or both Void.
\<close>

definition compared_by_content :: "ValueBase \<Rightarrow> ValueBase \<Rightarrow> bool" where
  "compared_by_content x y =
     (v_type x = v_type y \<and> v_type x \<in> {V_INT, V_BOOL, V_SYM, V_NULL, V_VOID})"


subsection \<open>Programs and states of the examples\<close>

text \<open>
  \<open>(define f (let ((x 1)) (lambda () x)))\<close>, then \<open>(define x 2)\<close>, then \<open>(f)\<close>, as three
  top-level forms.
\<close>

definition closure_forms :: "Syntax list" where
  "closure_forms =
     [List [SymbolSyntax ''define'', SymbolSyntax ''f'',
            List [SymbolSyntax ''let'', List [List [SymbolSyntax ''x'', Number 1]],
                  List [SymbolSyntax ''lambda'', List [], SymbolSyntax ''x'']]],
      List [SymbolSyntax ''define'', SymbolSyntax ''x'', Number 2],
      List [SymbolSyntax ''f'']]"

text \<open>\<open>(letrec ((f (lambda (n) (if (= n 0) 1 (* n (f (- n 1))))))) (f 5))\<close>.\<close>

definition letrec_factorial :: Syntax where
  "letrec_factorial =
     List [SymbolSyntax ''letrec'',
           List [List [SymbolSyntax ''f'',
                       List [SymbolSyntax ''lambda'', List [SymbolSyntax ''n''],
                             List [SymbolSyntax ''if'',
                                   List [SymbolSyntax ''='', SymbolSyntax ''n'', Number 0],
                                   Number 1,
                                   List [SymbolSyntax ''*'', SymbolSyntax ''n'',
                                         List [SymbolSyntax ''f'',
                                               List [SymbolSyntax ''-'', SymbolSyntax ''n'',
                                                     Number 1]]]]]]],
           List [SymbolSyntax ''f'', Number 5]]"

text \<open>
  The expression tree of the factorial, with the test \<open>(= n 0)\<close> left open: the parser
  builds one tree for it, the Binary node \<open>Equal\<close> would be another.
\<close>

definition factorial_tree :: "Expr \<Rightarrow> Expr" where
  "factorial_tree test =
     Letrec [(''f'', Lambda [''n'']
                (If_expr test (Fixnum 1)
                   (Binary Mult (Var ''n'')
                      (Apply (Var ''f'') [Binary Minus (Var ''n'') (Fixnum 1)]))))]
            (Apply (Var ''f'') [Fixnum 5])"

text \<open>\<open>(cond (#t 1))\<close>.\<close>

definition cond_true :: Syntax where
  "cond_true = List [SymbolSyntax ''cond'', List [TrueSyntax, Number 1]]"

text \<open>\<open>(< 1 2 3)\<close>.\<close>

definition less_chain :: Syntax where
  "less_chain = List [SymbolSyntax ''<'', Number 1, Number 2, Number 3]"

text \<open>\<open>(cons (display "a") (display "b"))\<close> and \<open>(list (display "a") (display "b"))\<close>.\<close>

definition cons_displays :: Syntax where
  "cons_displays =
     List [SymbolSyntax ''cons'',
           List [SymbolSyntax ''display'', StringSyntax ''a''],
           List [SymbolSyntax ''display'', StringSyntax ''b'']]"

definition list_displays :: Syntax where
  "list_displays =
     List [SymbolSyntax ''list'',
           List [SymbolSyntax ''display'', StringSyntax ''a''],
           List [SymbolSyntax ''display'', StringSyntax ''b'']]"

text \<open>
  A heap with two distinct strings of the same content, two distinct Null objects, an
  Integer and a Rational of the same magnitude.
\<close>

definition eq_state :: State where
  "eq_state =
     \<lparr>heap = [String_val ''a'', String_val ''a'', Null, Null, Integer 7, Rational 7 1],
      cells = [], stdout = []\<rparr>"



text \<open>\<open>(< 1 2)\<close>, \<open>(= 1 2)\<close> and \<open>(> 1 2)\<close>, by the name of the operator.\<close>

definition ordering_form :: "string \<Rightarrow> Syntax" where
  "ordering_form op = List [SymbolSyntax op, Number 1, Number 2]"

text \<open>
  A numeric operand as a numerator over a denominator, an Integer over \<open>1\<close>; and the
  integers that an \<open>int\<close> holds.
\<close>

fun fraction :: "num \<Rightarrow> int \<times> int" where
  "fraction (NInt n) = (n, 1)"
| "fraction (NRat n d) = (n, d)"

definition fits :: "int \<Rightarrow> bool" where
  "fits x = (INT_MIN \<le> x \<and> x \<le> INT_MAX)"

section \<open>Properties\<close>

lemmas store_defs =
  alloc_def IntegerV_def RationalV_def BooleanV_def StringV_def SymbolV_def NullV_def
  VoidV_def TerminateV_def PairV_def ProcedureV_def extend_def find_def modify_def
  deref_def ret_def throw_def with_env_def empty_def init_state_def

lemmas node_defs =
  Unary_eval_def Binary_eval_def Variadic_eval_def Var_eval_def Begin_eval_def
  AndVar_eval_def OrVar_eval_def If_eval_def Cond_eval_def Lambda_eval_def Apply_eval_def
  Define_eval_def Let_eval_def Letrec_eval_def Set_eval_def is_false_def Let_def

lemmas table_defs = primitives_def reserved_words_def primitive_map_def

lemmas parse_defs = parse_args_def parse_primitive_def

lemmas rator_defs =
  Unary_evalRator_def Binary_evalRator_def Variadic_evalRator_def
  Plus_evalRator_def Minus_evalRator_def Mult_evalRator_def Div_evalRator_def
  Equal_evalRator_def compareNumericValues_def numeric_operands_def three_way_def
  add_int_def sub_int_def mul_int_def wrap_def Cons_evalRator_def Display_evalRator_def
  ListFunc_evalRator_def

lemma returned_alloc: "returned_object (ret (alloc obj s)) = Some obj"
  by (simp add: returned_object_def ret_def alloc_def deref_def)

lemma returned_bool_alloc: "returned_bool (ret (BooleanV b s)) = Some b"
  by (simp add: returned_bool_def BooleanV_def returned_alloc)

lemma result_object_error: "fst r = Inl err \<Longrightarrow> result_object r = None"
  by (cases r) (simp add: result_object_def)

subsection \<open>The empty list\<close>

text \<open>
  C10. The empty list syntax node \<open>()\<close> parses, without error, into the quotation of an
  empty list, in every environment; evaluating that quotation returns a pointer to a
  Null object, in every environment and state.
\<close>

theorem empty_list_parses_to_quoted_null:
  "parse ord env s (List []) = Inr (Quote (List []))
   \<and> result_object (eval (Suc k) ord (Quote (List [])) env1 s1) = Some Null"
  by (simp add: result_object_def with_env_def ret_def NullV_def alloc_def deref_def)

subsection \<open>Identity\<close>

lemma IsEq_answer:
  assumes "deref rand1 s = Inr x" and "deref rand2 s = Inr y"
  shows "returned_object (IsEq_evalRator rand1 rand2 s) =
         Some (Boolean (case (x, y) of
            (Integer n1, Integer n2) \<Rightarrow> n1 = n2
          | (Boolean b1, Boolean b2) \<Rightarrow> b1 = b2
          | (Symbol s1, Symbol s2) \<Rightarrow> s1 = s2
          | (Null, Null) \<Rightarrow> True
          | (Void, Void) \<Rightarrow> True
          | _ \<Rightarrow> rand1 = rand2))"
  using assms
  by (cases x; cases y) (simp_all add: IsEq_evalRator_def BooleanV_def returned_alloc)

text \<open>
  C9. For two operands that point to objects \<open>x\<close> and \<open>y\<close>, \<open>eq?\<close> returns true when
  both are Null and when both are Void, whichever objects they are; it compares two
  Integers, two Booleans and two Symbols by content; for every other pair of kinds, two
  different kinds included, it returns whether the two pointers are equal, hence false
  for distinct objects.
\<close>

theorem eq_by_content_or_identity:
  assumes "deref rand1 s = Inr x" and "deref rand2 s = Inr y"
  shows "(x = Null \<and> y = Null \<longrightarrow>
            returned_object (IsEq_evalRator rand1 rand2 s) = Some (Boolean True))
       \<and> (x = Void \<and> y = Void \<longrightarrow>
            returned_object (IsEq_evalRator rand1 rand2 s) = Some (Boolean True))
       \<and> (x = Integer n1 \<and> y = Integer n2 \<longrightarrow>
            returned_object (IsEq_evalRator rand1 rand2 s) = Some (Boolean (n1 = n2)))
       \<and> (x = Boolean b1 \<and> y = Boolean b2 \<longrightarrow>
            returned_object (IsEq_evalRator rand1 rand2 s) = Some (Boolean (b1 = b2)))
       \<and> (x = Symbol s1 \<and> y = Symbol s2 \<longrightarrow>
            returned_object (IsEq_evalRator rand1 rand2 s) = Some (Boolean (s1 = s2)))
       \<and> (\<not> compared_by_content x y \<longrightarrow>
            returned_object (IsEq_evalRator rand1 rand2 s) = Some (Boolean (rand1 = rand2)))
       \<and> (\<not> compared_by_content x y \<and> rand1 \<noteq> rand2 \<longrightarrow>
            returned_object (IsEq_evalRator rand1 rand2 s) = Some (Boolean False))"
  unfolding IsEq_answer [OF assms] compared_by_content_def
  by (cases x; cases y) simp_all

text \<open>
  Two distinct strings of the same content are not \<open>eq?\<close>; two distinct Null objects
  are.
\<close>

theorem eq_by_content_or_identity_witness:
  "deref (Some 0) eq_state = Inr (String_val ''a'')
   \<and> deref (Some 1) eq_state = Inr (String_val ''a'')
   \<and> \<not> compared_by_content (String_val ''a'') (String_val ''a'')
   \<and> returned_object (IsEq_evalRator (Some 0) (Some 1) eq_state) = Some (Boolean False)
   \<and> deref (Some 2) eq_state = Inr Null
   \<and> deref (Some 3) eq_state = Inr Null
   \<and> returned_object (IsEq_evalRator (Some 2) (Some 3) eq_state) = Some (Boolean True)"
proof -
  have d0: "deref (Some 0) eq_state = Inr (String_val ''a'')"
    by (simp add: deref_def eq_state_def)
  have d1: "deref (Some 1) eq_state = Inr (String_val ''a'')"
    by (simp add: deref_def eq_state_def)
  have d2: "deref (Some 2) eq_state = Inr Null"
    by (simp add: deref_def eq_state_def)
  have d3: "deref (Some 3) eq_state = Inr Null"
    by (simp add: deref_def eq_state_def)
  have nc: "\<not> compared_by_content (String_val ''a'') (String_val ''a'')"
    by (simp add: compared_by_content_def)
  show ?thesis
    using d0 d1 d2 d3 nc eq_by_content_or_identity [OF d0 d1]
      eq_by_content_or_identity [OF d2 d3]
    by simp
qed

subsection \<open>Ordering of two numbers\<close>

text \<open>
  The operations themselves, which no parsed form reaches. While the cross products fit
  an \<open>int\<close>, the comparator returns the three-way comparison of \<open>n1 * d2\<close> with
  \<open>n2 * d1\<close> for the operands \<open>n1/d1\<close> and \<open>n2/d2\<close>.
\<close>

lemma wrap_fits: "fits x \<Longrightarrow> wrap x = x"
  by (simp add: fits_def wrap_def INT_MIN_def INT_MAX_def)

lemma compareNumericValues_cross_products:
  assumes "deref a s = Inr x" and "deref b s = Inr y"
    and "as_num x = Some p" and "as_num y = Some q"
    and "fraction p = (n1, d1)" and "fraction q = (n2, d2)"
    and "fits n1" and "fits n2" and "fits (n1 * d2)" and "fits (n2 * d1)"
  shows "compareNumericValues a b s = Inr (three_way (n1 * d2) (n2 * d1))"
  using assms
  by (cases p; cases q)
    (auto simp: compareNumericValues_def numeric_operands_def mul_int_def wrap_fits
      mult.commute)

lemma three_way_cases: "three_way l r = - 1 \<or> three_way l r = 0 \<or> three_way l r = 1"
  by (simp add: three_way_def)

lemma compareNumericValues_three_way:
  assumes "deref a s = Inr x" and "is_numeric x" and "deref b s = Inr y" and "is_numeric y"
  shows "\<exists>l r. compareNumericValues a b s = Inr (three_way l r)"
  using assms
  by (cases x; cases y) (auto simp: compareNumericValues_def numeric_operands_def is_numeric_def)

text \<open>
  \<open>Less\<close>, \<open>Equal\<close> and \<open>Greater\<close> \<open>::evalRator\<close> test the comparator's answer against
  zero, and exactly one of them returns true.
\<close>

lemma ordering_wrappers_trichotomy:
  assumes "deref a s = Inr x" and "is_numeric x" and "deref b s = Inr y" and "is_numeric y"
  shows "(\<exists>c. compareNumericValues a b s = Inr c
             \<and> (c = - 1 \<or> c = 0 \<or> c = 1)
             \<and> returned_bool (Less_evalRator a b s) = Some (c < 0)
             \<and> returned_bool (Equal_evalRator a b s) = Some (c = 0)
             \<and> returned_bool (Greater_evalRator a b s) = Some (c > 0))
       \<and> ((returned_bool (Less_evalRator a b s) = Some True
             \<and> returned_bool (Equal_evalRator a b s) = Some False
             \<and> returned_bool (Greater_evalRator a b s) = Some False)
          \<or> (returned_bool (Less_evalRator a b s) = Some False
             \<and> returned_bool (Equal_evalRator a b s) = Some True
             \<and> returned_bool (Greater_evalRator a b s) = Some False)
          \<or> (returned_bool (Less_evalRator a b s) = Some False
             \<and> returned_bool (Equal_evalRator a b s) = Some False
             \<and> returned_bool (Greater_evalRator a b s) = Some True))"
proof -
  obtain l r where c: "compareNumericValues a b s = Inr (three_way l r)"
    using compareNumericValues_three_way [OF assms] by blast
  have range: "three_way l r = - 1 \<or> three_way l r = 0 \<or> three_way l r = 1"
    by (rule three_way_cases)
  have lt: "returned_bool (Less_evalRator a b s) = Some (three_way l r < 0)"
    by (simp add: Less_evalRator_def c returned_bool_alloc)
  have eq: "returned_bool (Equal_evalRator a b s) = Some (three_way l r = 0)"
    by (simp add: Equal_evalRator_def c returned_bool_alloc)
  have gt: "returned_bool (Greater_evalRator a b s) = Some (three_way l r > 0)"
    by (simp add: Greater_evalRator_def c returned_bool_alloc)
  show ?thesis
    unfolding lt eq gt using c range by auto
qed

text \<open>
  The variables \<open><\<close>, \<open>=\<close> and \<open>>\<close> evaluate to the null pointer, and Apply::eval reads the
  kind of its operator before it evaluates any operand.
\<close>

lemma null_operator_application:
  "fst (eval (k + 2) ord (Apply (Var ''<'') rands) empty init_state) = Inl NullDereference"
  "fst (eval (k + 2) ord (Apply (Var ''='') rands) empty init_state) = Inl NullDereference"
  "fst (eval (k + 2) ord (Apply (Var ''>'') rands) empty init_state) = Inl NullDereference"
  by (simp_all add: store_defs node_defs table_defs numeral_eq_Suc)

lemma small_fuel_application:
  assumes "n < 2"
  shows "fst (eval n ord (Apply (Var x) rands) empty init_state) = Inl OutOfFuel"
proof -
  from assms consider "n = 0" | "n = 1"
    by linarith
  then show ?thesis
    by cases (simp_all add: store_defs node_defs)
qed

lemma no_value_from_null_operator:
  assumes "\<And>k. fst (eval (k + 2) ord (Apply (Var x) rands) empty init_state) = Inl NullDereference"
  shows "result_object (eval n ord (Apply (Var x) rands) empty init_state) = None"
proof (cases "n < 2")
  case True
  then show ?thesis
    by (rule result_object_error [OF small_fuel_application])
next
  case False
  then obtain j where n: "n = j + 2"
    by (metis add.commute le_Suc_ex not_less)
  show ?thesis
    unfolding n by (rule result_object_error [OF assms])
qed

text \<open>
  C7 at \<open>(< 1 2)\<close>, \<open>(= 1 2)\<close> and \<open>(> 1 2)\<close>. The parser has no case for the ordering
  primitives: each form becomes the application of a variable that evaluates to the null
  pointer, which Apply::eval dereferences, whatever the operands are. None of the three
  evaluates to true, or to any value, with any bound.
\<close>

theorem ordering_forms_dereference_null:
  "parse ord empty init_state (ordering_form ''<'') = Inr (Apply (Var ''<'') [Fixnum 1, Fixnum 2])
   \<and> parse ord empty init_state (ordering_form ''='') = Inr (Apply (Var ''='') [Fixnum 1, Fixnum 2])
   \<and> parse ord empty init_state (ordering_form ''>'') = Inr (Apply (Var ''>'') [Fixnum 1, Fixnum 2])
   \<and> fst (eval (k + 2) ord (Apply (Var ''<'') rands) empty init_state) = Inl NullDereference
   \<and> fst (eval (k + 2) ord (Apply (Var ''='') rands) empty init_state) = Inl NullDereference
   \<and> fst (eval (k + 2) ord (Apply (Var ''>'') rands) empty init_state) = Inl NullDereference
   \<and> result_object (eval n ord (Apply (Var ''<'') rands) empty init_state) = None
   \<and> result_object (eval n ord (Apply (Var ''='') rands) empty init_state) = None
   \<and> result_object (eval n ord (Apply (Var ''>'') rands) empty init_state) = None"
proof -
  have parsed:
    "parse ord empty init_state (ordering_form ''<'') = Inr (Apply (Var ''<'') [Fixnum 1, Fixnum 2])"
    "parse ord empty init_state (ordering_form ''='') = Inr (Apply (Var ''='') [Fixnum 1, Fixnum 2])"
    "parse ord empty init_state (ordering_form ''>'') = Inr (Apply (Var ''>'') [Fixnum 1, Fixnum 2])"
    by (cases ord; simp add: ordering_form_def store_defs table_defs parse_defs)+
  have none:
    "result_object (eval n ord (Apply (Var ''<'') rands) empty init_state) = None"
    "result_object (eval n ord (Apply (Var ''='') rands) empty init_state) = None"
    "result_object (eval n ord (Apply (Var ''>'') rands) empty init_state) = None"
    by (rule no_value_from_null_operator, rule null_operator_application)+
  show ?thesis
    using parsed none null_operator_application [of k ord rands] by (simp only: simp_thms)
qed

subsection \<open>Rational results\<close>













subsection \<open>Application of a closure\<close>

text \<open>
  The loop of Apply::eval allocates one cell per parameter, in order, in front of the
  environment it starts from, the last parameter innermost.
\<close>

lemma bind_params_shape:
  "length args = length ps \<Longrightarrow>
   bind_params ps args env s =
     (rev (zip ps [length (cells s) ..< length (cells s) + length ps]) @ env,
      s\<lparr>cells := cells s @ args\<rparr>)"
proof (induction ps arbitrary: args env s)
  case Nil
  then show ?case by simp
next
  case (Cons p ps)
  then obtain a as where args: "args = a # as" and len: "length as = length ps"
    by (cases args) auto
  have upt: "[length (cells s) ..< length (cells s) + length (p # ps)]
             = length (cells s) # [Suc (length (cells s)) ..< Suc (length (cells s)) + length ps]"
    by (simp add: upt_conv_Cons del: upt_Suc)
  show ?case
    unfolding upt by (simp add: args extend_def Cons.IH [OF len])
qed

lemma closure_forms_run:
  "last_value (run_forms (j + 3) ord closure_forms empty init_state) = Some (Integer 1)
   \<and> final_binding ''x'' (run_forms (j + 3) ord closure_forms empty init_state)
       = Some (Integer 2)"
  by (cases ord)
    (simp_all add: closure_forms_def last_value_def final_binding_def store_defs node_defs
      table_defs parse_defs numeral_eq_Suc)

text \<open>
  C1. When the operator of an application evaluates to a closure and the operands to as
  many values as the closure has parameters, the call environment is the closure's
  captured environment (not the caller's) with one new binding per parameter in front of
  it, in order, each new cell holding the value of the corresponding operand, and the
  result is that of the body in this environment; the caller keeps its own environment.
  Consequently the three top-level forms \<open>(define f (let ((x 1)) (lambda () x)))\<close>,
  \<open>(define x 2)\<close>, \<open>(f)\<close> end with the value \<open>1\<close>, although \<open>x\<close> is then bound to \<open>2\<close> at
  top level.
\<close>

theorem closure_application:
  assumes "eval k ord rator e s = (Inr proc, e1, s1)"
    and "deref proc s1 = Inr (Procedure parameters body clos_env)"
    and "eval_rands (eval k ord) rand e1 s1 = (Inr args, e2, s2)"
    and "length args = length parameters"
  shows "(\<exists>call_env s3.
            bind_params parameters args clos_env s2 = (call_env, s3)
          \<and> call_env =
              rev (zip parameters [length (cells s2) ..< length (cells s2) + length parameters])
                @ clos_env
          \<and> s3 = s2\<lparr>cells := cells s2 @ args\<rparr>
          \<and> eval (Suc k) ord (Apply rator rand) e s =
              (case eval k ord body call_env s3 of (r, call_env1, s4) \<Rightarrow> (r, e2, s4)))
       \<and> last_value (run_forms (j + 3) ord closure_forms empty init_state) = Some (Integer 1)
       \<and> final_binding ''x'' (run_forms (j + 3) ord closure_forms empty init_state)
           = Some (Integer 2)"
  using assms
  by (simp add: Apply_eval_def bind_params_shape closure_forms_run)

text \<open>
  \<open>((lambda (a b) b) 10 20)\<close> in the empty environment: the operator and the operands
  evaluate as the hypotheses ask, and the application returns \<open>20\<close>.
\<close>

theorem closure_application_witness:
  "eval 1 LeftToRight (Lambda [''a'', ''b''] (Var ''b'')) [] init_state
     = (Inr (Some 0), [],
        \<lparr>heap = [Procedure [''a'', ''b''] (Var ''b'') []], cells = [], stdout = []\<rparr>)
   \<and> deref (Some 0) \<lparr>heap = [Procedure [''a'', ''b''] (Var ''b'') []], cells = [], stdout = []\<rparr>
     = Inr (Procedure [''a'', ''b''] (Var ''b'') [])
   \<and> eval_rands (eval 1 LeftToRight) [Fixnum 10, Fixnum 20] []
        \<lparr>heap = [Procedure [''a'', ''b''] (Var ''b'') []], cells = [], stdout = []\<rparr>
     = (Inr [Some 1, Some 2], [],
        \<lparr>heap = [Procedure [''a'', ''b''] (Var ''b'') [], Integer 10, Integer 20],
         cells = [], stdout = []\<rparr>)
   \<and> result_object (eval 2 LeftToRight
         (Apply (Lambda [''a'', ''b''] (Var ''b'')) [Fixnum 10, Fixnum 20]) [] init_state)
     = Some (Integer 20)"
proof -
  let ?s1 = "\<lparr>heap = [Procedure [''a'', ''b''] (Var ''b'') []], cells = [], stdout = []\<rparr>"
  let ?s2 = "\<lparr>heap = [Procedure [''a'', ''b''] (Var ''b'') [], Integer 10, Integer 20],
              cells = [], stdout = []\<rparr>"
  have h1: "eval 1 LeftToRight (Lambda [''a'', ''b''] (Var ''b'')) [] init_state
            = (Inr (Some 0), [], ?s1)"
    by (simp add: store_defs node_defs)
  have h2: "deref (Some 0) ?s1 = Inr (Procedure [''a'', ''b''] (Var ''b'') [])"
    by (simp add: store_defs)
  have h3: "eval_rands (eval 1 LeftToRight) [Fixnum 10, Fixnum 20] [] ?s1
            = (Inr [Some 1, Some 2], [], ?s2)"
    by (simp add: store_defs node_defs)
  have h4: "length [Some (1::nat), Some 2] = length [''a'', ''b'']"
    by simp
  from closure_application [OF h1 h2 h3 h4]
  have "eval (Suc 1) LeftToRight
          (Apply (Lambda [''a'', ''b''] (Var ''b'')) [Fixnum 10, Fixnum 20]) [] init_state
        = (case eval 1 LeftToRight (Var ''b'')
                 (rev (zip [''a'', ''b'']
                    [length (cells ?s2) ..< length (cells ?s2) + length [''a'', ''b'']]) @ [])
                 (?s2\<lparr>cells := cells ?s2 @ [Some 1, Some 2]\<rparr>) of
             (r, call_env1, s4) \<Rightarrow> (r, [], s4))"
    by simp
  then have "result_object (eval 2 LeftToRight
         (Apply (Lambda [''a'', ''b''] (Var ''b'')) [Fixnum 10, Fixnum 20]) [] init_state)
     = Some (Integer 20)"
    by (simp add: result_object_def store_defs node_defs upt_conv_Cons numeral_2_eq_2)
  with h1 h2 h3 show ?thesis
    by simp
qed

subsection \<open>Variables\<close>

text \<open>The first case of Var::eval: a bound name evaluates to its value.\<close>

lemma bound_variable:
  "find x e s \<noteq> None \<Longrightarrow> eval (Suc k) ord (Var x) e s = (Inr (find x e s), e, s)"
  by (auto simp: Var_eval_def Let_def)

text \<open>A name that is bound nowhere and is no primitive evaluates to the null pointer.\<close>

lemma unbound_variable:
  "find x e s = None \<Longrightarrow> map_of primitives x = None \<Longrightarrow>
   eval (Suc k) ord (Var x) e s = (Inr None, e, s)"
  by (simp add: Var_eval_def Let_def)

text \<open>
  C4 at its third case, and at its second for a primitive outside the table of
  Var::eval. A name that is bound nowhere and is no primitive (\<open>y\<close>), and a primitive that
  the table does not list (\<open>car\<close>), both evaluate without any error to the null pointer;
  a listed primitive (\<open>+\<close>) evaluates to a fresh Procedure.
\<close>

theorem unbound_variable_is_null:
  "eval (Suc k) ord (Var ''y'') empty init_state = (Inr None, empty, init_state)
   \<and> eval (Suc k) ord (Var ''car'') empty init_state = (Inr None, empty, init_state)
   \<and> result_object (eval (Suc k) ord (Var ''+'') empty init_state)
       = Some (Procedure [] (Variadic PlusVar []) empty)"
  by (simp add: result_object_def store_defs node_defs table_defs)

subsection \<open>Cond\<close>

text \<open>
  C5 at \<open>(cond (#t 1))\<close>. The form parses to a Cond node with the one clause, and a Cond
  node, whatever its clauses, ends without returning a value: no predicate is evaluated,
  no body, and the result is neither \<open>1\<close> nor void.
\<close>

theorem cond_returns_nothing:
  "parse ord empty init_state cond_true = Inr (Cond [[True_expr, Fixnum 1]])
   \<and> eval (Suc k) ord (Cond clauses) e s = (Inl MissingReturn, e, s)"
  by (cases ord) (simp_all add: cond_true_def store_defs node_defs table_defs parse_defs)

subsection \<open>Ordering of more than two numbers\<close>

text \<open>
  C6 at \<open>(< 1 2 3)\<close>. The parser has no case for the ordering primitives and builds the
  application of the variable \<open><\<close>; that variable evaluates to the null pointer, which
  Apply::eval dereferences. The variadic nodes themselves, were they built, end without
  returning a value.
\<close>

theorem variadic_ordering_returns_nothing:
  "parse ord empty init_state less_chain
     = Inr (Apply (Var ''<'') [Fixnum 1, Fixnum 2, Fixnum 3])
   \<and> fst (eval (k + 2) ord (Apply (Var ''<'') [Fixnum 1, Fixnum 2, Fixnum 3]) empty init_state)
     = Inl NullDereference
   \<and> fst (eval (k + 2) ord (Variadic LessVar [Fixnum 1, Fixnum 2, Fixnum 3]) empty init_state)
     = Inl MissingReturn
   \<and> fst (eval (k + 2) ord (Variadic LessEqVar [Fixnum 1, Fixnum 2, Fixnum 3]) empty init_state)
     = Inl MissingReturn
   \<and> fst (eval (k + 2) ord (Variadic EqualVar [Fixnum 1, Fixnum 2, Fixnum 3]) empty init_state)
     = Inl MissingReturn
   \<and> fst (eval (k + 2) ord (Variadic GreaterEqVar [Fixnum 1, Fixnum 2, Fixnum 3]) empty init_state)
     = Inl MissingReturn
   \<and> fst (eval (k + 2) ord (Variadic GreaterVar [Fixnum 1, Fixnum 2, Fixnum 3]) empty init_state)
     = Inl MissingReturn"
  by (cases ord)
    (simp_all add: less_chain_def store_defs node_defs table_defs parse_defs rator_defs
      numeral_eq_Suc)

subsection \<open>Order of operand evaluation\<close>

text \<open>
  Variadic::eval evaluates its operands in a loop, first to last, whatever the compiler
  does with call arguments: \<open>(list (display "a") (display "b"))\<close> writes \<open>a\<close> then \<open>b\<close>.
\<close>

lemma variadic_operands_left_to_right:
  "parse ord empty init_state list_displays
     = Inr (Variadic ListFunc [Unary Display (StringExpr ''a''), Unary Display (StringExpr ''b'')])
   \<and> stdout (snd (snd (eval (k + 3) ord
        (Variadic ListFunc [Unary Display (StringExpr ''a''), Unary Display (StringExpr ''b'')])
        empty init_state)))
     = [Text ''a'', Text ''b'']"
  by (cases ord)
    (simp_all add: list_displays_def store_defs node_defs table_defs parse_defs rator_defs
      numeral_eq_Suc)

text \<open>
  C8 at \<open>(cons (display "a") (display "b"))\<close>. The form parses to a Binary node. Where the
  compiler evaluates the last argument of a call first, the node writes \<open>b\<close> before \<open>a\<close>;
  where it evaluates the first argument first, \<open>a\<close> before \<open>b\<close>.
\<close>

theorem binary_operand_order_is_the_compilers:
  "parse ord empty init_state cons_displays
     = Inr (Binary Cons_op (Unary Display (StringExpr ''a'')) (Unary Display (StringExpr ''b'')))
   \<and> stdout (snd (snd (eval (k + 3) RightToLeft
        (Binary Cons_op (Unary Display (StringExpr ''a'')) (Unary Display (StringExpr ''b'')))
        empty init_state)))
     = [Text ''b'', Text ''a'']
   \<and> stdout (snd (snd (eval (k + 3) LeftToRight
        (Binary Cons_op (Unary Display (StringExpr ''a'')) (Unary Display (StringExpr ''b'')))
        empty init_state)))
     = [Text ''a'', Text ''b'']"
  by (cases ord)
    (simp_all add: cons_displays_def store_defs node_defs table_defs parse_defs rator_defs
      numeral_eq_Suc)

subsection \<open>Letrec\<close>

text \<open>The first loop of Letrec::eval: one cell per name, each holding the null pointer.\<close>

lemma Letrec_placeholders_shape:
  "Letrec_placeholders xs env s =
     (rev (zip xs [length (cells s) ..< length (cells s) + length xs]) @ env,
      s\<lparr>cells := cells s @ replicate (length xs) None\<rparr>)"
proof (induction xs arbitrary: env s)
  case Nil
  then show ?case by simp
next
  case (Cons x xs)
  have upt: "[length (cells s) ..< length (cells s) + length (x # xs)]
             = length (cells s) # [Suc (length (cells s)) ..< Suc (length (cells s)) + length xs]"
    by (simp add: upt_conv_Cons del: upt_Suc)
  show ?case
    unfolding upt by (simp add: extend_def Cons.IH replicate_app_Cons_same)
qed

text \<open>
  The order of Letrec::eval: the right-hand sides are evaluated in the environment that
  holds every placeholder, the placeholders are then overwritten, and the body is
  evaluated last; the caller keeps its environment.
\<close>

lemma Letrec_order:
  assumes "eval_rands (eval k ord) (map snd bind)
             (rev (zip (map fst bind) [length (cells s) ..< length (cells s) + length bind]) @ env)
             (s\<lparr>cells := cells s @ replicate (length bind) None\<rparr>)
           = (Inr vals, env2, s2)"
    and "Letrec_modify (map fst bind) vals env2 s2 = (None, s3)"
  shows "eval (Suc k) ord (Letrec bind body) env s =
           (case eval k ord body env2 s3 of (r, env3, s4) \<Rightarrow> (r, env, s4))"
  using assms by (simp add: Letrec_eval_def Letrec_placeholders_shape)

text \<open>
  Letrec::eval on the tree that holds the Binary node \<open>Equal\<close> for the test: the
  placeholder of \<open>f\<close> is overwritten with the closure before the body runs, the closure
  finds itself through its captured environment, and the result is \<open>120\<close>.
\<close>

lemma letrec_factorial_with_Equal_node:
  "result_object (eval (k + 20) ord (factorial_tree (Binary Equal (Var ''n'') (Fixnum 0)))
     empty init_state) = Some (Integer 120)"
  by (cases ord)
    (simp_all add: factorial_tree_def store_defs node_defs table_defs rator_defs
      result_object_def numeral_eq_Suc)

lemma parsed_factorial_with_enough_fuel:
  "fst (eval (k + 5) ord (factorial_tree (Apply (Var ''='') [Var ''n'', Fixnum 0]))
          empty init_state)
   = Inl NullDereference"
  by (cases ord)
    (simp_all add: factorial_tree_def store_defs node_defs table_defs numeral_eq_Suc)

lemma parsed_factorial_with_little_fuel:
  assumes "n < 5"
  shows "fst (eval n ord (factorial_tree (Apply (Var ''='') [Var ''n'', Fixnum 0]))
            empty init_state)
         = Inl OutOfFuel"
proof -
  from assms consider "n = 0" | "n = 1" | "n = 2" | "n = 3" | "n = 4"
    by linarith
  then show ?thesis
    by cases
      (simp_all add: factorial_tree_def store_defs node_defs table_defs numeral_eq_Suc)
qed

text \<open>
  C2 at its example. The parser has no case for \<open>=\<close>: the test \<open>(= n 0)\<close> becomes the
  application of the variable \<open>=\<close>, which evaluates to the null pointer, and Apply::eval
  dereferences it in the first call of \<open>f\<close>. With any bound of five or more the
  evaluation ends so; with no bound at all does it return a value, \<open>120\<close> or another.
\<close>

theorem letrec_factorial_dereferences_null:
  "parse ord empty init_state letrec_factorial
     = Inr (factorial_tree (Apply (Var ''='') [Var ''n'', Fixnum 0]))
   \<and> fst (eval (k + 5) ord (factorial_tree (Apply (Var ''='') [Var ''n'', Fixnum 0]))
            empty init_state)
     = Inl NullDereference
   \<and> result_object (eval n ord (factorial_tree (Apply (Var ''='') [Var ''n'', Fixnum 0]))
        empty init_state)
     = None"
proof -
  have parsed: "parse ord empty init_state letrec_factorial
                = Inr (factorial_tree (Apply (Var ''='') [Var ''n'', Fixnum 0]))"
    by (cases ord)
      (simp_all add: letrec_factorial_def factorial_tree_def store_defs table_defs parse_defs)
  have no_value: "result_object (eval n ord
                    (factorial_tree (Apply (Var ''='') [Var ''n'', Fixnum 0])) empty init_state)
                  = None"
  proof (cases "n < 5")
    case True
    then show ?thesis
      by (rule result_object_error [OF parsed_factorial_with_little_fuel])
  next
    case False
    then obtain j where "n = j + 5"
      by (metis add.commute le_Suc_ex not_less)
    then show ?thesis
      by (simp add: result_object_error [OF parsed_factorial_with_enough_fuel])
  qed
  show ?thesis
    using parsed parsed_factorial_with_enough_fuel no_value by simp
qed

end
